theory Spec2Isabelle
  imports Complex_Main "HOL-Library.AList"
begin

section \<open>Python values, strings and dictionaries\<close>

text \<open>
  Strings are lists of code points below 256. For the \<open>Authorization\<close> request header
  this is exact: Starlette decodes header bytes as Latin-1. Configuration values and JSON
  strings are covered for the same range of code points.

  A parsed JSON document is a Python value: \<open>None\<close>, a \<open>bool\<close>, an unbounded \<open>int\<close>,
  a \<open>float\<close>, a \<open>str\<close>, a \<open>list\<close> or a \<open>dict\<close> with string keys (an association list
  in insertion order, read with \<open>map_of\<close>).
\<close>

datatype json =
    JNull
  | JBool bool
  | JInt int
  | JFloat real
  | JStr string
  | JArr "json list"
  | JObj "(string \<times> json) list"

text \<open>Exceptions that the handlers do not catch; FastAPI answers such a request itself.\<close>

datatype py_exn = IndexError | AttributeError

text \<open>Python truth value testing, as used by \<open>bool(x)\<close>, \<open>not x\<close>, \<open>x or y\<close>.\<close>

fun truthy :: "json \<Rightarrow> bool" where
  "truthy JNull = False"
| "truthy (JBool b) = b"
| "truthy (JInt i) = (i \<noteq> 0)"
| "truthy (JFloat r) = (r \<noteq> 0)"
| "truthy (JStr s) = (s \<noteq> [])"
| "truthy (JArr xs) = (xs \<noteq> [])"
| "truthy (JObj kvs) = (kvs \<noteq> [])"

text \<open>\<open>x or y\<close>: the first operand when it is truthy, the second otherwise.\<close>

definition py_or :: "json \<Rightarrow> json \<Rightarrow> json" where
  "py_or x y = (if truthy x then x else y)"

text \<open>
  \<open>body.get(key, default)\<close>: only a dict has the method; on any other value the attribute
  lookup raises \<open>AttributeError\<close>.
\<close>

fun py_get :: "json \<Rightarrow> string \<Rightarrow> json \<Rightarrow> py_exn + json" where
  "py_get (JObj kvs) k d = Inr (case map_of kvs k of None \<Rightarrow> d | Some v \<Rightarrow> v)"
| "py_get _ k d = Inl AttributeError"

text \<open>Decimal rendering of an \<open>int\<close>, as \<open>str\<close> gives it.\<close>

definition digit_char :: "nat \<Rightarrow> char" where
  "digit_char d = char_of (48 + d)"

fun digits :: "nat \<Rightarrow> string" where
  "digits n = (if n < 10 then [digit_char n] else digits (n div 10) @ [digit_char (n mod 10)])"

declare digits.simps [simp del]

definition str_int :: "int \<Rightarrow> string" where
  "str_int i = (if i < 0 then CHR ''-'' # digits (nat (- i)) else digits (nat i))"

text \<open>
  \<open>str(x)\<close> and the \<open>{x}\<close> of an f-string. The rendering of floats, lists and dicts is
  Python's \<open>repr\<close>, which is not part of the repository: it is the parameter \<open>py_repr\<close>.
\<close>

fun py_str :: "(json \<Rightarrow> string) \<Rightarrow> json \<Rightarrow> string" where
  "py_str py_repr (JStr s) = s"
| "py_str py_repr JNull = ''None''"
| "py_str py_repr (JBool b) = (if b then ''True'' else ''False'')"
| "py_str py_repr (JInt i) = str_int i"
| "py_str py_repr v = py_repr v"

text \<open>
  \<open>str.lower\<close> on code points below 256: the ASCII capitals and the Latin-1 capitals
  \<open>0xC0..0xDE\<close> (but not the multiplication sign \<open>0xD7\<close>) move up by 32.
\<close>

definition lower_char :: "char \<Rightarrow> char" where
  "lower_char c =
     (let n = (of_char c :: nat) in
      if (65 \<le> n \<and> n \<le> 90) \<or> (192 \<le> n \<and> n \<le> 222 \<and> n \<noteq> 215) then char_of (n + 32) else c)"

definition lower :: "string \<Rightarrow> string" where
  "lower s = map lower_char s"

definition startswith :: "string \<Rightarrow> string \<Rightarrow> bool" where
  "startswith s p = (take (length p) s = p)"

text \<open>
  \<open>str.isspace\<close> on code points below 256: tab to carriage return, the four separators
  \<open>0x1C..0x1F\<close>, the space, NEL \<open>0x85\<close> and the no-break space \<open>0xA0\<close>.
\<close>

definition isspace :: "char \<Rightarrow> bool" where
  "isspace c =
     (let n = (of_char c :: nat) in
      (9 \<le> n \<and> n \<le> 13) \<or> (28 \<le> n \<and> n \<le> 32) \<or> n = 133 \<or> n = 160)"

text \<open>\<open>s.strip()\<close> removes leading and trailing whitespace.\<close>

definition strip :: "string \<Rightarrow> string" where
  "strip s = rev (dropWhile isspace (rev (dropWhile isspace s)))"

text \<open>\<open>s.split(" ", 1)\<close>: one piece when there is no space, else the text before and after the first space.\<close>

definition split1 :: "string \<Rightarrow> string list" where
  "split1 s =
     (case dropWhile (\<lambda>c. c \<noteq> CHR '' '') s of
        [] \<Rightarrow> [s]
      | _ # rest \<Rightarrow> [takeWhile (\<lambda>c. c \<noteq> CHR '' '') s, rest])"

text \<open>\<open>xs[i]\<close> for a non-negative index.\<close>

definition py_index :: "'a list \<Rightarrow> nat \<Rightarrow> py_exn + 'a" where
  "py_index xs i = (if i < length xs then Inr (xs ! i) else Inl IndexError)"

text \<open>\<open>os.getenv(name, default)\<close> over the process environment.\<close>

definition getenv :: "(string \<rightharpoonup> string) \<Rightarrow> string \<Rightarrow> string \<Rightarrow> string" where
  "getenv environ name dflt = (case environ name of None \<Rightarrow> dflt | Some v \<Rightarrow> v)"

section \<open>Base64 and UTF-8\<close>

text \<open>Bytes are characters too: \<open>of_char\<close> reads a byte as a number below 256.\<close>

definition b64_alphabet :: string where
  "b64_alphabet = ''ABCDEFGHIJKLMNOPQRSTUVWXYZabcdefghijklmnopqrstuvwxyz0123456789+/''"

definition b64_char :: "nat \<Rightarrow> char" where
  "b64_char i = b64_alphabet ! i"

text \<open>
  \<open>base64.b64encode\<close>: three bytes give four characters; one or two trailing bytes give
  two or three characters and \<open>=\<close> padding up to four.
\<close>

fun b64encode :: "string \<Rightarrow> string" where
  "b64encode [] = []"
| "b64encode [a] =
     (let x = (of_char a :: nat) in
      [b64_char (x div 4), b64_char ((x mod 4) * 16), CHR ''='', CHR ''=''])"
| "b64encode [a, b] =
     (let x = (of_char a :: nat); y = (of_char b :: nat) in
      [b64_char (x div 4), b64_char ((x mod 4) * 16 + y div 16), b64_char ((y mod 16) * 4), CHR ''=''])"
| "b64encode (a # b # c # rest) =
     (let x = (of_char a :: nat); y = (of_char b :: nat); z = (of_char c :: nat) in
      [b64_char (x div 4), b64_char ((x mod 4) * 16 + y div 16),
       b64_char ((y mod 16) * 4 + z div 64), b64_char (z mod 64)] @ b64encode rest)"

text \<open>\<open>base64.urlsafe_b64encode\<close>: the standard encoding with \<open>+\<close> and \<open>/\<close> translated to \<open>-\<close> and \<open>_\<close>.\<close>

definition urlsafe_translate :: "char \<Rightarrow> char" where
  "urlsafe_translate c = (if c = CHR ''+'' then CHR ''-'' else if c = CHR ''/'' then CHR ''_'' else c)"

definition urlsafe_b64encode :: "string \<Rightarrow> string" where
  "urlsafe_b64encode s = map urlsafe_translate (b64encode s)"

text \<open>\<open>s.rstrip('=')\<close> removes every trailing \<open>=\<close>.\<close>

definition rstrip_eq :: "string \<Rightarrow> string" where
  "rstrip_eq s = rev (dropWhile (\<lambda>c. c = CHR ''='') (rev s))"

text \<open>
  \<open>s.encode("utf-8")\<close> on code points below 256: one byte below 128, two bytes above.
  The result of the Base64 encoders is ASCII, so its \<open>decode("utf-8")\<close> is the same
  characters and is not written out.
\<close>

definition utf8_char :: "char \<Rightarrow> string" where
  "utf8_char c =
     (let n = (of_char c :: nat) in
      if n < 128 then [c] else [char_of (192 + n div 64), char_of (128 + n mod 64)])"

definition utf8_encode :: "string \<Rightarrow> string" where
  "utf8_encode s = concat (map utf8_char s)"

text \<open>\<open>_basic_auth_header\<close>, the same function in both sidecars.\<close>

definition basic_auth_header :: "string \<Rightarrow> string \<Rightarrow> string" where
  "basic_auth_header cid secret = ''Basic '' @ b64encode (utf8_encode (cid @ '':'' @ secret))"

section \<open>The HTTP boundary shared by the two sidecars\<close>

text \<open>
  An outbound \<open>client.post(url, headers=..., data=...)\<close>. The form dictionary holds Python
  values as the handler passes them.
\<close>

record http_request =
  url :: string
  req_headers :: "(string \<times> string) list"
  data :: "(string \<times> json) list"

text \<open>
  What the handlers read of an \<open>httpx\<close> response: its status code and the result of
  \<open>resp.json()\<close>, which is \<open>None\<close> when that call raises on a body that does not parse.
\<close>

record http_response =
  resp_status :: int
  resp_json :: "json option"

text \<open>
  The outcome of one \<open>client.post\<close>: it raises (connection failure, timeout, any other
  exception of the client) or returns a response.
\<close>

datatype http_outcome = Raised | Returned http_response

text \<open>
  The response a handler returns: \<open>PlainTextResponse(content, status_code)\<close> or
  \<open>Response(content, status_code, headers)\<close>, with the header dictionary as the handler
  builds it.

  Starlette's \<open>Response\<close> encodes every header value when it is constructed
  (\<open>v.encode("latin-1")\<close>): a value that is not a \<open>str\<close> has no \<open>encode\<close>, and the
  constructor raises \<open>AttributeError\<close>. A string of code points below 256 always encodes.
\<close>

record response =
  status_code :: int
  content :: string
  headers :: "(string \<times> json) list"

definition PlainTextResponse :: "string \<Rightarrow> int \<Rightarrow> response" where
  "PlainTextResponse c code = \<lparr>status_code = code, content = c, headers = []\<rparr>"

definition is_str :: "json \<Rightarrow> bool" where
  "is_str v = (case v of JStr s \<Rightarrow> True | _ \<Rightarrow> False)"

definition Response :: "string \<Rightarrow> int \<Rightarrow> (string \<times> json) list \<Rightarrow> py_exn + response" where
  "Response c code hs =
     (if list_all (\<lambda>kv. is_str (snd kv)) hs
      then Inr \<lparr>status_code = code, content = c, headers = hs\<rparr>
      else Inl AttributeError)"

text \<open>\<open>req.headers.get(name, default)\<close>; Starlette keys the request headers by lower-case name.\<close>

definition headers_get :: "(string \<rightharpoonup> string) \<Rightarrow> string \<Rightarrow> string \<Rightarrow> string" where
  "headers_get hs name dflt = (case hs name of None \<Rightarrow> dflt | Some v \<Rightarrow> v)"

definition form_urlencoded :: string where
  "form_urlencoded = ''application/x-www-form-urlencoded''"

section \<open>The introspection sidecar (admission gate)\<close>

text \<open>The module-level configuration, read from the environment with empty defaults.\<close>

record gate_config =
  KC_INTROSPECT_URL :: string
  KC_CLIENT_ID :: string
  KC_CLIENT_SECRET :: string

definition gate_config_of :: "(string \<rightharpoonup> string) \<Rightarrow> gate_config" where
  "gate_config_of environ =
     \<lparr>KC_INTROSPECT_URL = getenv environ ''KC_INTROSPECT_URL'' '''',
      KC_CLIENT_ID = getenv environ ''KC_CLIENT_ID'' '''',
      KC_CLIENT_SECRET = getenv environ ''KC_CLIENT_SECRET'' ''''\<rparr>"

text \<open>
  The tail of \<open>check\<close>, from the parsed introspection body on: the \<open>active\<close> test, the
  identity headers and the construction of the response. An exception here is outside
  every \<open>try\<close> of the handler.
\<close>

definition check_verdict :: "(json \<Rightarrow> string) \<Rightarrow> json \<Rightarrow> py_exn + response" where
  "check_verdict py_repr body =
     (case py_get body ''active'' (JBool False) of
        Inl e \<Rightarrow> Inl e
      | Inr active \<Rightarrow>
          if \<not> truthy active then Inr (PlainTextResponse '''' 401)
          else
            (case py_get body ''sub'' JNull of
               Inl e \<Rightarrow> Inl e
             | Inr sub \<Rightarrow>
                 (case (if truthy sub then Inr sub
                        else (case py_get body ''username'' JNull of
                                Inl e \<Rightarrow> Inl e
                              | Inr username \<Rightarrow> Inr (py_or username (JStr '''')))) of
                    Inl e \<Rightarrow> Inl e
                  | Inr subject \<Rightarrow>
                      (case py_get body ''scope'' JNull of
                         Inl e \<Rightarrow> Inl e
                       | Inr sc \<Rightarrow>
                           (case py_get body ''exp'' JNull of
                              Inl e \<Rightarrow> Inl e
                            | Inr ex \<Rightarrow>
                                (let scope = py_or sc (JStr '''');
                                     exp = py_str py_repr (py_or ex (JStr ''''));
                                     headers_out =
                                       [(''X-Subject'', subject),
                                        (''X-Scope'', scope),
                                        (''X-Token-Exp'', JStr exp)]
                                 in Response '''' 200 headers_out))))))"

text \<open>The introspection request of \<open>check\<close> (RFC 7662) for the bearer \<open>token\<close>.\<close>

definition introspection_request :: "gate_config \<Rightarrow> string \<Rightarrow> http_request" where
  "introspection_request cfg token =
     (let hdrs =
            [(''Authorization'', basic_auth_header (KC_CLIENT_ID cfg) (KC_CLIENT_SECRET cfg)),
             (''Content-Type'', form_urlencoded)];
          dat = [(''token'', JStr token), (''token_type_hint'', JStr ''access_token'')]
      in \<lparr>url = KC_INTROSPECT_URL cfg, req_headers = hdrs, data = dat\<rparr>)"

text \<open>
  The handler \<open>check\<close>. It returns the response, or the exception that escapes it, and the
  list of outbound requests it made, in order.
\<close>

definition check ::
  "(json \<Rightarrow> string) \<Rightarrow> gate_config \<Rightarrow> (string \<rightharpoonup> string) \<Rightarrow> (http_request \<Rightarrow> http_outcome)
     \<Rightarrow> (py_exn + response) \<times> http_request list" where
  "check py_repr cfg hs post =
     (let auth = headers_get hs ''authorization'' '''' in
      if \<not> startswith (lower auth) ''bearer '' then (Inr (PlainTextResponse '''' 401), [])
      else
        (case py_index (split1 auth) 1 of
           Inl e \<Rightarrow> (Inl e, [])
         | Inr rest \<Rightarrow>
             (let token = strip rest in
              if \<not> (KC_INTROSPECT_URL cfg \<noteq> [] \<and> KC_CLIENT_ID cfg \<noteq> [] \<and> KC_CLIENT_SECRET cfg \<noteq> [])
              then (Inr (PlainTextResponse ''misconfigured'' 500), [])
              else
                (let rq = introspection_request cfg token in
                 case post rq of
                   Raised \<Rightarrow> (Inr (PlainTextResponse '''' 401), [rq])
                 | Returned resp \<Rightarrow>
                     if resp_status resp \<ge> 500 then (Inr (PlainTextResponse '''' 401), [rq])
                     else
                       (case resp_json resp of
                          None \<Rightarrow> (Inr (PlainTextResponse '''' 401), [rq])
                        | Some body \<Rightarrow> (check_verdict py_repr body, [rq]))))))"

section \<open>The token-broker sidecar\<close>

record broker_config =
  KC_A_TOKEN_URL :: string
  KC_A_CLIENT_ID :: string
  KC_A_CLIENT_SECRET :: string
  KC_A_SCOPE :: string
  KC_B_TOKEN_URL :: string
  KC_B_CLIENT_ID :: string
  KC_B_CLIENT_SECRET :: string
  KC_B_CLIENT_AUTH :: string

definition broker_config_of :: "(string \<rightharpoonup> string) \<Rightarrow> broker_config" where
  "broker_config_of environ =
     \<lparr>KC_A_TOKEN_URL = getenv environ ''KC_A_TOKEN_URL'' '''',
      KC_A_CLIENT_ID = getenv environ ''KC_A_CLIENT_ID'' '''',
      KC_A_CLIENT_SECRET = getenv environ ''KC_A_CLIENT_SECRET'' '''',
      KC_A_SCOPE = getenv environ ''KC_A_SCOPE'' '''',
      KC_B_TOKEN_URL = getenv environ ''KC_B_TOKEN_URL'' '''',
      KC_B_CLIENT_ID = getenv environ ''KC_B_CLIENT_ID'' '''',
      KC_B_CLIENT_SECRET = getenv environ ''KC_B_CLIENT_SECRET'' '''',
      KC_B_CLIENT_AUTH = getenv environ ''KC_B_CLIENT_AUTH'' ''client_secret_basic''\<rparr>"

definition client_auth_fields :: "string \<Rightarrow> string \<Rightarrow> string \<Rightarrow> (string \<times> json) list" where
  "client_auth_fields client_id client_secret method =
     (if method = ''client_secret_post''
      then [(''client_id'', JStr client_id), (''client_secret'', JStr client_secret)]
      else [])"

text \<open>\<open>d.update(e)\<close>: every entry of \<open>e\<close> is stored in \<open>d\<close>, in order.\<close>

definition dict_update :: "(string \<times> json) list \<Rightarrow> (string \<times> json) list \<Rightarrow> (string \<times> json) list" where
  "dict_update d e = fold (\<lambda>kv. AList.update (fst kv) (snd kv)) e d"

definition token_exchange_grant :: string where
  "token_exchange_grant = ''urn:ietf:params:oauth:grant-type:token-exchange''"

definition access_token_type :: string where
  "access_token_type = ''urn:ietf:params:oauth:token-type:access_token''"

definition jwt_bearer_grant :: string where
  "jwt_bearer_grant = ''urn:ietf:params:oauth:grant-type:jwt-bearer''"

text \<open>The Hop-A request (step 3 of \<open>broker\<close>).\<close>

definition hop_a_request :: "broker_config \<Rightarrow> string \<Rightarrow> http_request" where
  "hop_a_request cfg incoming =
     (let data_a0 =
            [(''grant_type'', JStr token_exchange_grant),
             (''subject_token'', JStr incoming),
             (''subject_token_type'', JStr access_token_type)];
          data_a = (if KC_A_SCOPE cfg \<noteq> [] then AList.update ''scope'' (JStr (KC_A_SCOPE cfg)) data_a0
                    else data_a0);
          headers_a =
            [(''Authorization'', basic_auth_header (KC_A_CLIENT_ID cfg) (KC_A_CLIENT_SECRET cfg)),
             (''Content-Type'', form_urlencoded)]
      in \<lparr>url = KC_A_TOKEN_URL cfg, req_headers = headers_a, data = data_a\<rparr>)"

text \<open>The Hop-B request (step 4 of \<open>broker\<close>), for the token \<open>jwt_for_b\<close> of Hop A.\<close>

definition hop_b_request :: "broker_config \<Rightarrow> json \<Rightarrow> http_request" where
  "hop_b_request cfg jwt_for_b =
     (let data_b0 = [(''grant_type'', JStr jwt_bearer_grant), (''assertion'', jwt_for_b)] in
      if KC_B_CLIENT_AUTH cfg = ''client_secret_basic''
      then \<lparr>url = KC_B_TOKEN_URL cfg,
            req_headers =
              [(''Authorization'', basic_auth_header (KC_B_CLIENT_ID cfg) (KC_B_CLIENT_SECRET cfg)),
               (''Content-Type'', form_urlencoded)],
            data = data_b0\<rparr>
      else \<lparr>url = KC_B_TOKEN_URL cfg,
            req_headers = [(''Content-Type'', form_urlencoded)],
            data = dict_update data_b0
                     (client_auth_fields (KC_B_CLIENT_ID cfg) (KC_B_CLIENT_SECRET cfg) ''client_secret_post'')\<rparr>)"

text \<open>
  What \<open>broker\<close> does with the Hop-B outcome. Every exception of the requests and of
  reading the body is inside the handler's \<open>try\<close>, whose \<open>except Exception\<close> answers 401;
  the final \<open>Response(...)\<close> is built after the \<open>try\<close>.
\<close>

definition broker_finish :: "(json \<Rightarrow> string) \<Rightarrow> http_outcome \<Rightarrow> py_exn + response" where
  "broker_finish py_repr out_b =
     (case out_b of
        Raised \<Rightarrow> Inr (PlainTextResponse '''' 401)
      | Returned r_b \<Rightarrow>
          if resp_status r_b \<ge> 500 then Inr (PlainTextResponse '''' 401)
          else
            (case resp_json r_b of
               None \<Rightarrow> Inr (PlainTextResponse '''' 401)
             | Some body_b \<Rightarrow>
                 (case py_get body_b ''access_token'' (JStr '''') of
                    Inl e \<Rightarrow> Inr (PlainTextResponse '''' 401)
                  | Inr final_token \<Rightarrow>
                      if \<not> truthy final_token then Inr (PlainTextResponse '''' 401)
                      else
                        (let headers_out =
                               [(''Authorization'', JStr (''Bearer '' @ py_str py_repr final_token)),
                                (''Cache-Control'', JStr ''no-store'')]
                         in Response '''' 200 headers_out))))"

text \<open>
  The handler \<open>broker\<close>: the response or the escaping exception, and the outbound requests
  it made, in order.
\<close>

definition broker ::
  "(json \<Rightarrow> string) \<Rightarrow> broker_config \<Rightarrow> (string \<rightharpoonup> string) \<Rightarrow> (http_request \<Rightarrow> http_outcome)
     \<Rightarrow> (py_exn + response) \<times> http_request list" where
  "broker py_repr cfg hs post =
     (let auth = headers_get hs ''authorization'' '''' in
      if \<not> startswith (lower auth) ''bearer '' then (Inr (PlainTextResponse '''' 401), [])
      else
        (case py_index (split1 auth) 1 of
           Inl e \<Rightarrow> (Inl e, [])
         | Inr rest \<Rightarrow>
             (let incoming = strip rest in
              if \<not> (KC_A_TOKEN_URL cfg \<noteq> [] \<and> KC_A_CLIENT_ID cfg \<noteq> [] \<and> KC_A_CLIENT_SECRET cfg \<noteq> []
                    \<and> KC_B_TOKEN_URL cfg \<noteq> [] \<and> KC_B_CLIENT_ID cfg \<noteq> [] \<and> KC_B_CLIENT_SECRET cfg \<noteq> [])
              then (Inr (PlainTextResponse ''misconfigured'' 500), [])
              else
                (let rq_a = hop_a_request cfg incoming in
                 case post rq_a of
                   Raised \<Rightarrow> (Inr (PlainTextResponse '''' 401), [rq_a])
                 | Returned r_a \<Rightarrow>
                     if resp_status r_a \<ge> 500 then (Inr (PlainTextResponse '''' 401), [rq_a])
                     else
                       (case resp_json r_a of
                          None \<Rightarrow> (Inr (PlainTextResponse '''' 401), [rq_a])
                        | Some body_a \<Rightarrow>
                            (case py_get body_a ''access_token'' (JStr '''') of
                               Inl e \<Rightarrow> (Inr (PlainTextResponse '''' 401), [rq_a])
                             | Inr jwt_for_b \<Rightarrow>
                                 if \<not> truthy jwt_for_b then (Inr (PlainTextResponse '''' 401), [rq_a])
                                 else
                                   (let rq_b = hop_b_request cfg jwt_for_b in
                                    (broker_finish py_repr (post rq_b), [rq_a, rq_b]))))))))"

section \<open>The authorization-code flow of \<open>get_token.py\<close>\<close>

definition KEYCLOAK_CLIENT_ID :: string where
  "KEYCLOAK_CLIENT_ID = ''mcp''"

definition KEYCLOAK_CLIENT_SECRET :: string where
  "KEYCLOAK_CLIENT_SECRET = ''<secret>''"

definition REDIRECT_URI :: string where
  "REDIRECT_URI = ''http://localhost:8888/callback''"

definition REQUESTED_SCOPE :: string where
  "REQUESTED_SCOPE = ''hello''"

text \<open>Truth value of the global \<open>auth_code\<close>: \<open>None\<close> and the empty string are false.\<close>

definition code_truthy :: "string option \<Rightarrow> bool" where
  "code_truthy c = (case c of None \<Rightarrow> False | Some s \<Rightarrow> s \<noteq> [])"

text \<open>
  \<open>CallbackHandler.do_GET\<close>. The input is the dictionary \<open>parse_qs\<close> gives for the query
  of the request path and the current value of the global \<open>auth_code\<close>; the result is the
  new value of the global and the status line sent (none when the query has neither a
  \<open>code\<close> nor an \<open>error\<close>). The text of the HTML pages is left out.
\<close>

definition do_GET :: "(string \<rightharpoonup> string list) \<Rightarrow> string option \<Rightarrow> py_exn + (string option \<times> int option)" where
  "do_GET query_params auth_code =
     (case query_params ''code'' of
        Some cs \<Rightarrow>
          (case py_index cs 0 of
             Inl e \<Rightarrow> Inl e
           | Inr c \<Rightarrow> Inr (Some c, Some 200))
      | None \<Rightarrow>
          (case query_params ''error'' of
             Some es \<Rightarrow>
               (case py_index es 0 of
                  Inl e \<Rightarrow> Inl e
                | Inr error \<Rightarrow>
                    (case py_index (case query_params ''error_description'' of None \<Rightarrow> [''''] | Some ds \<Rightarrow> ds) 0 of
                       Inl e \<Rightarrow> Inl e
                     | Inr error_description \<Rightarrow> Inr (auth_code, Some 400)))
           | None \<Rightarrow> Inr (auth_code, None)))"

text \<open>
  The polling loop of \<open>login_flow\<close>: \<open>for i in range(120)\<close> reads the global after each
  one-second sleep and leaves at the first truthy value; \<open>seen i\<close> is the value of the
  global at the \<open>i\<close>-th read, and the read after the loop (\<open>if not auth_code\<close>) is the
  next one.
\<close>

fun wait_loop :: "(nat \<Rightarrow> string option) \<Rightarrow> nat \<Rightarrow> nat \<Rightarrow> string option" where
  "wait_loop seen i 0 = seen i"
| "wait_loop seen i (Suc n) = (if code_truthy (seen i) then seen i else wait_loop seen (Suc i) n)"

text \<open>The arguments of \<open>keycloak_openid.token(...)\<close> and the headers set on its connection.\<close>

record token_call =
  grant_type :: string
  code :: string
  redirect_uri :: string
  code_verifier :: string
  client_secret_key :: "string option"
  authorization :: string

text \<open>What \<open>login_flow\<close> leaves behind: its return value, the parameters of the authorization
  URL, the PKCE verifier, the token requests made and the stored tokens.\<close>

record flow_result =
  success :: bool
  auth_params :: "(string \<times> string) list"
  verifier :: string
  token_calls :: "token_call list"
  access_token :: json
  refresh_token :: json

text \<open>
  \<open>login_flow\<close>. Its parameters are what the flow takes from outside the repository:
  \<open>sha256\<close> is \<open>hashlib.sha256(...).digest()\<close>, \<open>token_bytes\<close> is \<open>secrets.token_bytes\<close>,
  \<open>callback\<close> is the one request the loopback listener handles, if any, as the number of
  the first read of the global that sees its effect together with its parsed query, and
  \<open>token\<close> is the token endpoint behind \<open>keycloak_openid.token\<close> (\<open>None\<close> when the call
  raises). The authorization URL is \<open>urlencode\<close> of \<open>auth_params\<close>; the result keeps the
  dictionary.
\<close>

definition login_flow ::
  "(string \<Rightarrow> string) \<Rightarrow> (nat \<Rightarrow> string) \<Rightarrow> (nat \<times> (string \<rightharpoonup> string list)) option
     \<Rightarrow> (token_call \<Rightarrow> json option) \<Rightarrow> flow_result" where
  "login_flow sha256 token_bytes callback token =
     (let code_verifier = rstrip_eq (urlsafe_b64encode (token_bytes 32));
          code_challenge = rstrip_eq (urlsafe_b64encode (sha256 (utf8_encode code_verifier)));
          auth_params =
            [(''client_id'', KEYCLOAK_CLIENT_ID),
             (''redirect_uri'', REDIRECT_URI),
             (''response_type'', ''code''),
             (''scope'', REQUESTED_SCOPE),
             (''state'', ''random_state''),
             (''code_challenge'', code_challenge),
             (''code_challenge_method'', ''S256'')];
          seen = (\<lambda>i. case callback of
                         None \<Rightarrow> None
                       | Some (k, query_params) \<Rightarrow>
                           if k \<le> i
                           then (case do_GET query_params None of Inl e \<Rightarrow> None | Inr (c, st) \<Rightarrow> c)
                           else None);
          auth_code = wait_loop seen 0 120;
          failed = (\<lambda>calls. \<lparr>success = False, auth_params = auth_params, verifier = code_verifier,
                             token_calls = calls, access_token = JNull, refresh_token = JNull\<rparr>)
      in if \<not> code_truthy auth_code then failed []
         else
           (let call =
                  \<lparr>grant_type = ''authorization_code'',
                   code = (case auth_code of None \<Rightarrow> '''' | Some c \<Rightarrow> c),
                   redirect_uri = REDIRECT_URI,
                   code_verifier = code_verifier,
                   client_secret_key = None,
                   authorization =
                     ''Basic '' @ b64encode (utf8_encode (KEYCLOAK_CLIENT_ID @ '':'' @ KEYCLOAK_CLIENT_SECRET))\<rparr>
            in (case token call of
                  None \<Rightarrow> failed [call]
                | Some token_response \<Rightarrow>
                    (case py_get token_response ''access_token'' JNull of
                       Inl e \<Rightarrow> failed [call]
                     | Inr acc \<Rightarrow>
                         (case py_get token_response ''refresh_token'' JNull of
                            Inl e \<Rightarrow> (failed [call])\<lparr>access_token := acc\<rparr>
                          | Inr refr \<Rightarrow>
                              \<lparr>success = True, auth_params = auth_params, verifier = code_verifier,
                               token_calls = [call], access_token = acc, refresh_token = refr\<rparr>)))))"

section \<open>Notions of the specification\<close>

text \<open>
  Unpadded base64url as the specification words it (RFC 4648 section 5 without the
  padding): the alphabet ends in \<open>-\<close> and \<open>_\<close>, three bytes give four characters, a last
  group of one or two bytes gives two or three characters, and nothing is appended.
\<close>

definition b64url_alphabet :: string where
  "b64url_alphabet = ''ABCDEFGHIJKLMNOPQRSTUVWXYZabcdefghijklmnopqrstuvwxyz0123456789-_''"

definition b64url_char :: "nat \<Rightarrow> char" where
  "b64url_char i = b64url_alphabet ! i"

fun spec_base64url_unpadded :: "string \<Rightarrow> string" where
  "spec_base64url_unpadded [] = []"
| "spec_base64url_unpadded [a] =
     [b64url_char (of_char a div 4), b64url_char ((of_char a mod 4) * 16)]"
| "spec_base64url_unpadded [a, b] =
     [b64url_char (of_char a div 4), b64url_char ((of_char a mod 4) * 16 + of_char b div 16),
      b64url_char ((of_char b mod 16) * 4)]"
| "spec_base64url_unpadded (a # b # c # rest) =
     [b64url_char (of_char a div 4), b64url_char ((of_char a mod 4) * 16 + of_char b div 16),
      b64url_char ((of_char b mod 16) * 4 + of_char c div 64), b64url_char (of_char c mod 64)]
     @ spec_base64url_unpadded rest"

text \<open>The Bearer scheme in any letter case, followed by a space.\<close>

definition bearer_any_case :: "string \<Rightarrow> bool" where
  "bearer_any_case auth =
     (7 \<le> length auth
      \<and> list_all2 (\<lambda>c lu. c = fst lu \<or> c = snd lu) (take 6 auth) (zip ''bearer'' ''BEARER'')
      \<and> auth ! 6 = CHR '' '')"

text \<open>The substring after the first space (empty when there is no space).\<close>

definition after_first_space :: "string \<Rightarrow> string" where
  "after_first_space s = drop 1 (dropWhile (\<lambda>c. c \<noteq> CHR '' '') s)"

text \<open>The text \<open>t\<close> occurs in \<open>s\<close>.\<close>

definition occurs_in :: "string \<Rightarrow> string \<Rightarrow> bool" where
  "occurs_in t s = list_ex (\<lambda>i. take (length t) (drop i s) = t) [0..<Suc (length s)]"

text \<open>The text \<open>t\<close> occurs somewhere in a response: in its body, a header name or a header value.\<close>

definition exposed_in :: "(json \<Rightarrow> string) \<Rightarrow> string \<Rightarrow> response \<Rightarrow> bool" where
  "exposed_in py_repr t r =
     (occurs_in t (content r)
      \<or> list_ex (\<lambda>kv. occurs_in t (fst kv) \<or> occurs_in t (py_str py_repr (snd kv))) (headers r))"

text \<open>
  A token-endpoint outcome that carries a non-empty \<open>access_token\<close>: a response whose body
  parses to an object with an \<open>access_token\<close> that is not one of Python's empty values.
\<close>

definition yields_access_token :: "http_outcome \<Rightarrow> json \<Rightarrow> bool" where
  "yields_access_token out tok =
     (case out of
        Raised \<Rightarrow> False
      | Returned r \<Rightarrow>
          (case resp_json r of
             Some (JObj kvs) \<Rightarrow> map_of kvs ''access_token'' = Some tok \<and> truthy tok
           | _ \<Rightarrow> False))"

definition has_access_token :: "http_outcome \<Rightarrow> bool" where
  "has_access_token out =
     (case out of
        Raised \<Rightarrow> False
      | Returned r \<Rightarrow>
          (case resp_json r of
             Some (JObj kvs) \<Rightarrow> (case map_of kvs ''access_token'' of None \<Rightarrow> False | Some tok \<Rightarrow> truthy tok)
           | _ \<Rightarrow> False))"

text \<open>The status of an outcome is below 500 (a raised call has no status).\<close>

definition status_below_500 :: "http_outcome \<Rightarrow> bool" where
  "status_below_500 out = (case out of Raised \<Rightarrow> False | Returned r \<Rightarrow> resp_status r < 500)"

text \<open>
  An introspection outcome that must not admit the caller: the call raised, the status is
  500 or more, the body does not parse, or the body is an object whose \<open>active\<close> is absent
  or one of Python's false values.
\<close>

definition introspection_refuses :: "http_outcome \<Rightarrow> bool" where
  "introspection_refuses out =
     (case out of
        Raised \<Rightarrow> True
      | Returned r \<Rightarrow>
          resp_status r \<ge> 500
          \<or> (case resp_json r of
                None \<Rightarrow> True
              | Some (JObj kvs) \<Rightarrow> (case map_of kvs ''active'' of None \<Rightarrow> True | Some a \<Rightarrow> \<not> truthy a)
              | Some _ \<Rightarrow> False))"

text \<open>A configuration value is absent: the variable is unset or empty.\<close>

definition absent :: "(string \<rightharpoonup> string) \<Rightarrow> string \<Rightarrow> bool" where
  "absent environ name = (environ name = None \<or> environ name = Some [])"

text \<open>
  The two shapes of client authentication at a token endpoint: HTTP Basic (the credentials
  in the \<open>Authorization\<close> header, none in the form) and client-secret-in-body (the
  credentials as form fields, no \<open>Authorization\<close> header).
\<close>

definition basic_shape :: "string \<Rightarrow> string \<Rightarrow> http_request \<Rightarrow> bool" where
  "basic_shape cid secret rq =
     (map_of (req_headers rq) ''Authorization''
        = Some (''Basic '' @ b64encode (utf8_encode (cid @ '':'' @ secret)))
      \<and> map_of (data rq) ''client_id'' = None
      \<and> map_of (data rq) ''client_secret'' = None)"

definition body_shape :: "string \<Rightarrow> string \<Rightarrow> http_request \<Rightarrow> bool" where
  "body_shape cid secret rq =
     (map_of (req_headers rq) ''Authorization'' = None
      \<and> map_of (data rq) ''client_id'' = Some (JStr cid)
      \<and> map_of (data rq) ''client_secret'' = Some (JStr secret))"

text \<open>The configuration of a sidecar is complete: every required value is non-empty.\<close>

definition gate_configured :: "gate_config \<Rightarrow> bool" where
  "gate_configured cfg =
     (KC_INTROSPECT_URL cfg \<noteq> [] \<and> KC_CLIENT_ID cfg \<noteq> [] \<and> KC_CLIENT_SECRET cfg \<noteq> [])"

definition broker_configured :: "broker_config \<Rightarrow> bool" where
  "broker_configured cfg =
     (KC_A_TOKEN_URL cfg \<noteq> [] \<and> KC_A_CLIENT_ID cfg \<noteq> [] \<and> KC_A_CLIENT_SECRET cfg \<noteq> []
      \<and> KC_B_TOKEN_URL cfg \<noteq> [] \<and> KC_B_CLIENT_ID cfg \<noteq> [] \<and> KC_B_CLIENT_SECRET cfg \<noteq> [])"

text \<open>The two fixed responses of the ext-authz contract.\<close>

definition DENY :: response where
  "DENY = \<lparr>status_code = 401, content = [], headers = []\<rparr>"

definition MISCONFIGURED :: response where
  "MISCONFIGURED = \<lparr>status_code = 500, content = ''misconfigured'', headers = []\<rparr>"

section \<open>The Bearer prefix\<close>

lemma lower_char_eq_space: "lower_char c = CHR '' '' \<longleftrightarrow> c = CHR '' ''"
  unfolding lower_char_def Let_def by (cases c) (auto simp: char_of_eq_iff)

lemma lower_char_eq_b: "lower_char c = CHR ''b'' \<longleftrightarrow> c = CHR ''b'' \<or> c = CHR ''B''"
  unfolding lower_char_def Let_def by (cases c) (auto simp: char_of_eq_iff)

lemma lower_char_eq_e: "lower_char c = CHR ''e'' \<longleftrightarrow> c = CHR ''e'' \<or> c = CHR ''E''"
  unfolding lower_char_def Let_def by (cases c) (auto simp: char_of_eq_iff)

lemma lower_char_eq_a: "lower_char c = CHR ''a'' \<longleftrightarrow> c = CHR ''a'' \<or> c = CHR ''A''"
  unfolding lower_char_def Let_def by (cases c) (auto simp: char_of_eq_iff)

lemma lower_char_eq_r: "lower_char c = CHR ''r'' \<longleftrightarrow> c = CHR ''r'' \<or> c = CHR ''R''"
  unfolding lower_char_def Let_def by (cases c) (auto simp: char_of_eq_iff)

lemmas lower_char_bearer = lower_char_eq_space lower_char_eq_b lower_char_eq_e lower_char_eq_a lower_char_eq_r

lemma take_Suc_eq_Cons: "take (Suc n) xs = y # ys \<longleftrightarrow> (\<exists>zs. xs = y # zs \<and> take n zs = ys)"
  by (cases xs) auto

lemma startswith_bearer_iff:
  "startswith (lower auth) ''bearer '' \<longleftrightarrow>
     (\<exists>c0 c1 c2 c3 c4 c5 rest. auth = c0 # c1 # c2 # c3 # c4 # c5 # CHR '' '' # rest
        \<and> (c0 = CHR ''b'' \<or> c0 = CHR ''B'') \<and> (c1 = CHR ''e'' \<or> c1 = CHR ''E'')
        \<and> (c2 = CHR ''a'' \<or> c2 = CHR ''A'') \<and> (c3 = CHR ''r'' \<or> c3 = CHR ''R'')
        \<and> (c4 = CHR ''e'' \<or> c4 = CHR ''E'') \<and> (c5 = CHR ''r'' \<or> c5 = CHR ''R''))"
  (is "?L \<longleftrightarrow> ?R")
proof
  assume ?L
  then obtain c0 c1 c2 c3 c4 c5 c6 rest where a: "auth = c0 # c1 # c2 # c3 # c4 # c5 # c6 # rest"
    and l: "lower_char c0 = CHR ''b''" "lower_char c1 = CHR ''e''" "lower_char c2 = CHR ''a''"
      "lower_char c3 = CHR ''r''" "lower_char c4 = CHR ''e''" "lower_char c5 = CHR ''r''"
      "lower_char c6 = CHR '' ''"
    by (auto simp: startswith_def lower_def take_Suc_eq_Cons map_eq_Cons_conv)
  from l show ?R unfolding a by (simp add: lower_char_bearer)
next
  assume ?R
  then show ?L
    by (auto simp: startswith_def lower_def lower_char_bearer)
qed


lemma length_ge_7: "7 \<le> length xs \<Longrightarrow> \<exists>c0 c1 c2 c3 c4 c5 c6 rest. xs = c0 # c1 # c2 # c3 # c4 # c5 # c6 # rest"
  by (simp add: numeral_eq_Suc Suc_le_length_iff) blast

lemma bearer_any_case_iff: "bearer_any_case auth \<longleftrightarrow> startswith (lower auth) ''bearer ''"
proof
  assume b: "bearer_any_case auth"
  then have "7 \<le> length auth" by (simp add: bearer_any_case_def)
  then obtain c0 c1 c2 c3 c4 c5 c6 rest where a: "auth = c0 # c1 # c2 # c3 # c4 # c5 # c6 # rest"
    using length_ge_7 by blast
  from b show "startswith (lower auth) ''bearer ''"
    unfolding startswith_bearer_iff a by (simp add: bearer_any_case_def)
next
  assume "startswith (lower auth) ''bearer ''"
  then obtain c0 c1 c2 c3 c4 c5 rest where a: "auth = c0 # c1 # c2 # c3 # c4 # c5 # CHR '' '' # rest"
    and c: "c0 = CHR ''b'' \<or> c0 = CHR ''B''" "c1 = CHR ''e'' \<or> c1 = CHR ''E''"
       "c2 = CHR ''a'' \<or> c2 = CHR ''A''" "c3 = CHR ''r'' \<or> c3 = CHR ''R''"
       "c4 = CHR ''e'' \<or> c4 = CHR ''E''" "c5 = CHR ''r'' \<or> c5 = CHR ''R''"
    unfolding startswith_bearer_iff by blast
  from c show "bearer_any_case auth"
    unfolding a by (simp add: bearer_any_case_def)
qed

lemma bearer_split:
  assumes "startswith (lower auth) ''bearer ''"
  shows "split1 auth = [take 6 auth, drop 7 auth]" and "after_first_space auth = drop 7 auth"
proof -
  from assms obtain c0 c1 c2 c3 c4 c5 rest where a: "auth = c0 # c1 # c2 # c3 # c4 # c5 # CHR '' '' # rest"
    and c: "c0 = CHR ''b'' \<or> c0 = CHR ''B''" "c1 = CHR ''e'' \<or> c1 = CHR ''E''"
       "c2 = CHR ''a'' \<or> c2 = CHR ''A''" "c3 = CHR ''r'' \<or> c3 = CHR ''R''"
       "c4 = CHR ''e'' \<or> c4 = CHR ''E''" "c5 = CHR ''r'' \<or> c5 = CHR ''R''"
    unfolding startswith_bearer_iff by blast
  have ns: "c0 \<noteq> CHR '' ''" "c1 \<noteq> CHR '' ''" "c2 \<noteq> CHR '' ''" "c3 \<noteq> CHR '' ''" "c4 \<noteq> CHR '' ''" "c5 \<noteq> CHR '' ''"
    using c by auto
  show "split1 auth = [take 6 auth, drop 7 auth]"
    unfolding a by (simp add: split1_def ns)
  show "after_first_space auth = drop 7 auth"
    unfolding a by (simp add: after_first_space_def ns)
qed

lemma bearer_index: "startswith (lower auth) ''bearer '' \<Longrightarrow> py_index (split1 auth) (Suc 0) = Inr (drop 7 auth)"
  by (simp add: bearer_split py_index_def)

section \<open>The paths through the gate\<close>

lemma DENY_eq: "PlainTextResponse [] 401 = DENY"
  by (simp add: PlainTextResponse_def DENY_def)

lemma MISCONFIGURED_eq: "PlainTextResponse ''misconfigured'' 500 = MISCONFIGURED"
  by (simp add: PlainTextResponse_def MISCONFIGURED_def)

lemma check_no_bearer:
  "\<not> bearer_any_case (headers_get hs ''authorization'' []) \<Longrightarrow> check py_repr cfg hs post = (Inr DENY, [])"
  by (simp add: check_def bearer_any_case_iff DENY_eq)

lemma check_misconfigured:
  "bearer_any_case (headers_get hs ''authorization'' []) \<Longrightarrow> \<not> gate_configured cfg
     \<Longrightarrow> check py_repr cfg hs post = (Inr MISCONFIGURED, [])"
  by (auto simp add: check_def bearer_any_case_iff bearer_index gate_configured_def MISCONFIGURED_eq Let_def)

lemma check_configured:
  assumes "bearer_any_case (headers_get hs ''authorization'' [])" and "gate_configured cfg"
  shows "check py_repr cfg hs post =
     (let rq = introspection_request cfg (strip (after_first_space (headers_get hs ''authorization'' []))) in
      (case post rq of
         Raised \<Rightarrow> Inr DENY
       | Returned resp \<Rightarrow>
           if resp_status resp \<ge> 500 then Inr DENY
           else (case resp_json resp of None \<Rightarrow> Inr DENY | Some body \<Rightarrow> check_verdict py_repr body),
       [rq]))"
  using assms
  by (auto simp add: check_def bearer_any_case_iff bearer_index bearer_split(2) gate_configured_def DENY_eq Let_def
      split: http_outcome.splits option.splits)

lemma check_verdict_falsy:
  "(case map_of kvs ''active'' of None \<Rightarrow> True | Some a \<Rightarrow> \<not> truthy a) \<Longrightarrow> check_verdict py_repr (JObj kvs) = Inr DENY"
  by (auto simp: check_verdict_def DENY_eq split: option.splits)


text \<open>
  An admitted body whose \<open>sub\<close> is truthy but not a string: the header dictionary holds the
  value as it is, and the construction of the response raises.
\<close>

lemma check_verdict_nonstring_subject:
  assumes "map_of kvs ''active'' = Some a" "truthy a"
    "map_of kvs ''sub'' = Some v" "truthy v" "\<not> is_str v"
  shows "check_verdict py_repr (JObj kvs) = Inl AttributeError"
  using assms by (simp add: check_verdict_def py_or_def Response_def split: option.splits)



text \<open>
  A body that parses but is not an object has no \<open>get\<close>: the \<open>AttributeError\<close> is raised
  outside every \<open>try\<close> of \<open>check\<close> and escapes the handler.
\<close>

lemma check_body_not_object:
  assumes "bearer_any_case (headers_get hs ''authorization'' [])" and "gate_configured cfg"
    and "post (introspection_request cfg (strip (after_first_space (headers_get hs ''authorization'' [])))) = Returned resp"
    and "resp_status resp < 500"
    and "resp_json resp = Some body"
    and "\<forall>kvs. body \<noteq> JObj kvs"
  shows "fst (check py_repr cfg hs post) = Inl AttributeError"
  using assms(3-6)
  by (cases body) (simp_all add: check_configured [OF assms(1,2)] Let_def check_verdict_def)

section \<open>The paths through the broker\<close>

lemma broker_no_bearer:
  "\<not> bearer_any_case (headers_get hs ''authorization'' []) \<Longrightarrow> broker py_repr cfg hs post = (Inr DENY, [])"
  by (simp add: broker_def bearer_any_case_iff DENY_eq)

lemma broker_misconfigured:
  "bearer_any_case (headers_get hs ''authorization'' []) \<Longrightarrow> \<not> broker_configured cfg
     \<Longrightarrow> broker py_repr cfg hs post = (Inr MISCONFIGURED, [])"
  by (auto simp add: broker_def bearer_any_case_iff bearer_index broker_configured_def MISCONFIGURED_eq Let_def)

lemma broker_configured_unfold:
  assumes "bearer_any_case (headers_get hs ''authorization'' [])" and "broker_configured cfg"
  shows "broker py_repr cfg hs post =
     (let rq_a = hop_a_request cfg (strip (after_first_space (headers_get hs ''authorization'' []))) in
      case post rq_a of
        Raised \<Rightarrow> (Inr DENY, [rq_a])
      | Returned r_a \<Rightarrow>
          if resp_status r_a \<ge> 500 then (Inr DENY, [rq_a])
          else
            (case resp_json r_a of
               None \<Rightarrow> (Inr DENY, [rq_a])
             | Some body_a \<Rightarrow>
                 (case py_get body_a ''access_token'' (JStr []) of
                    Inl e \<Rightarrow> (Inr DENY, [rq_a])
                  | Inr jwt_for_b \<Rightarrow>
                      if \<not> truthy jwt_for_b then (Inr DENY, [rq_a])
                      else (broker_finish py_repr (post (hop_b_request cfg jwt_for_b)),
                            [rq_a, hop_b_request cfg jwt_for_b]))))"
  using assms
  by (auto simp add: broker_def bearer_any_case_iff bearer_index bearer_split(2) broker_configured_def DENY_eq Let_def
        split: http_outcome.splits option.splits sum.splits)

lemma py_get_access_token_cases:
  "py_get body ''access_token'' (JStr []) = Inr tok \<and> truthy tok
     \<longleftrightarrow> (\<exists>kvs. body = JObj kvs \<and> map_of kvs ''access_token'' = Some tok \<and> truthy tok)"
  by (cases body) (auto split: option.splits)

lemma broker_hop_a_fail:
  assumes "bearer_any_case (headers_get hs ''authorization'' [])" and "broker_configured cfg"
    and "\<not> (status_below_500 (post (hop_a_request cfg (strip (after_first_space (headers_get hs ''authorization'' [])))))
            \<and> has_access_token (post (hop_a_request cfg (strip (after_first_space (headers_get hs ''authorization'' []))))))"
  shows "broker py_repr cfg hs post =
           (Inr DENY, [hop_a_request cfg (strip (after_first_space (headers_get hs ''authorization'' [])))])"
  using assms(3)
  by (auto simp add: broker_configured_unfold [OF assms(1,2)] Let_def status_below_500_def has_access_token_def
        split: http_outcome.splits option.splits json.splits)

lemma broker_hop_a_ok:
  assumes "bearer_any_case (headers_get hs ''authorization'' [])" and "broker_configured cfg"
    and "status_below_500 (post (hop_a_request cfg (strip (after_first_space (headers_get hs ''authorization'' [])))))"
    and "yields_access_token (post (hop_a_request cfg (strip (after_first_space (headers_get hs ''authorization'' []))))) jwt"
  shows "broker py_repr cfg hs post =
           (broker_finish py_repr (post (hop_b_request cfg jwt)),
            [hop_a_request cfg (strip (after_first_space (headers_get hs ''authorization'' []))), hop_b_request cfg jwt])"
  using assms(3,4)
  by (auto simp add: broker_configured_unfold [OF assms(1,2)] Let_def status_below_500_def yields_access_token_def
        split: http_outcome.splits option.splits json.splits)

lemma broker_finish_fail:
  "\<not> (status_below_500 out \<and> has_access_token out) \<Longrightarrow> broker_finish py_repr out = Inr DENY"
  by (auto simp add: broker_finish_def status_below_500_def has_access_token_def DENY_eq
        split: http_outcome.splits option.splits json.splits)

lemma broker_finish_ok:
  "status_below_500 out \<Longrightarrow> yields_access_token out tok \<Longrightarrow>
     broker_finish py_repr out =
       Inr \<lparr>status_code = 200, content = [],
        headers = [(''Authorization'', JStr (''Bearer '' @ py_str py_repr tok)), (''Cache-Control'', JStr ''no-store'')]\<rparr>"
  by (auto simp add: broker_finish_def status_below_500_def yields_access_token_def Response_def is_str_def
        split: http_outcome.splits option.splits json.splits)

lemma has_access_token_iff: "has_access_token out \<longleftrightarrow> (\<exists>tok. yields_access_token out tok)"
  by (auto simp add: has_access_token_def yields_access_token_def
        split: http_outcome.splits option.splits json.splits)

lemma broker_trace_cases:
  "snd (broker py_repr cfg hs post) = []
   \<or> snd (broker py_repr cfg hs post) = [hop_a_request cfg (strip (after_first_space (headers_get hs ''authorization'' [])))]
   \<or> (\<exists>jwt. truthy jwt \<and> snd (broker py_repr cfg hs post) =
         [hop_a_request cfg (strip (after_first_space (headers_get hs ''authorization'' []))), hop_b_request cfg jwt])"
proof (cases "bearer_any_case (headers_get hs ''authorization'' []) \<and> broker_configured cfg")
  case False
  then show ?thesis using broker_no_bearer broker_misconfigured by (metis snd_conv)
next
  case True
  let ?out = "post (hop_a_request cfg (strip (after_first_space (headers_get hs ''authorization'' []))))"
  show ?thesis
  proof (cases "status_below_500 ?out \<and> has_access_token ?out")
    case False
    then show ?thesis using broker_hop_a_fail True by (metis snd_conv)
  next
    case t: True
    then obtain jwt where "yields_access_token ?out jwt" by (auto simp: has_access_token_iff)
    moreover from this have "truthy jwt"
      by (auto simp: yields_access_token_def split: http_outcome.splits option.splits json.splits)
    ultimately show ?thesis using broker_hop_a_ok True t by (metis snd_conv)
  qed
qed

section \<open>What the header check lets through\<close>







section \<open>The two hop requests\<close>

lemma hop_requests_differ: "hop_a_request cfg t \<noteq> hop_b_request cfg' jwt"
proof
  assume "hop_a_request cfg t = hop_b_request cfg' jwt"
  then have "map_of (data (hop_a_request cfg t)) ''grant_type'' = map_of (data (hop_b_request cfg' jwt)) ''grant_type''"
    by simp
  then show False
    by (simp add: hop_a_request_def hop_b_request_def Let_def update_conv' dict_update_def client_auth_fields_def
          token_exchange_grant_def jwt_bearer_grant_def split: if_splits)
qed

lemma hop_requests_differ': "hop_b_request cfg' jwt \<noteq> hop_a_request cfg t"
  using hop_requests_differ [of cfg t cfg' jwt] by (rule not_sym)

lemma occurs_in_Nil: "occurs_in t [] \<longleftrightarrow> t = []"
  by (auto simp: occurs_in_def)

lemma not_exposed_in_DENY: "t \<noteq> [] \<Longrightarrow> \<not> exposed_in py_repr t DENY"
  by (simp add: exposed_in_def DENY_def occurs_in_Nil)

lemma scenario_token: "strip (after_first_space (headers_get [''authorization'' \<mapsto> ''Bearer abc''] ''authorization'' [])) = ''abc''"
  by (simp add: strip_def after_first_space_def headers_get_def isspace_def)

lemma scenario_bearer: "bearer_any_case (headers_get [''authorization'' \<mapsto> ''Bearer abc''] ''authorization'' [])"
  by (simp add: bearer_any_case_def headers_get_def)

lemma hop_a_grant: "map_of (data (hop_a_request cfg t)) ''grant_type'' = Some (JStr token_exchange_grant)"
  by (simp add: hop_a_request_def Let_def update_conv')

lemma hop_b_grant: "map_of (data (hop_b_request cfg jwt)) ''grant_type'' = Some (JStr jwt_bearer_grant)"
  by (simp add: hop_b_request_def Let_def update_conv' dict_update_def client_auth_fields_def)

lemma grants_differ: "jwt_bearer_grant \<noteq> token_exchange_grant"
  by (simp add: token_exchange_grant_def jwt_bearer_grant_def)

lemma hop_b_request_shape:
  "(KC_B_CLIENT_AUTH cfg = ''client_secret_basic'' \<longrightarrow>
      basic_shape (KC_B_CLIENT_ID cfg) (KC_B_CLIENT_SECRET cfg) (hop_b_request cfg jwt)
      \<and> \<not> body_shape (KC_B_CLIENT_ID cfg) (KC_B_CLIENT_SECRET cfg) (hop_b_request cfg jwt))
   \<and> (KC_B_CLIENT_AUTH cfg \<noteq> ''client_secret_basic'' \<longrightarrow>
      body_shape (KC_B_CLIENT_ID cfg) (KC_B_CLIENT_SECRET cfg) (hop_b_request cfg jwt)
      \<and> \<not> basic_shape (KC_B_CLIENT_ID cfg) (KC_B_CLIENT_SECRET cfg) (hop_b_request cfg jwt))"
  by (simp add: hop_b_request_def Let_def basic_shape_def body_shape_def basic_auth_header_def
        dict_update_def client_auth_fields_def update_conv')

section \<open>Unpadded base64url\<close>

lemma of_char_less_256: "(of_char c :: nat) < 256"
proof -
  have "(of_char c :: nat) mod 256 = of_char c" by (rule of_char_mod_256)
  then show ?thesis by (metis mod_less_divisor zero_less_numeral)
qed

lemma map_translate_alphabet: "map urlsafe_translate b64_alphabet = b64url_alphabet"
  by (simp add: b64_alphabet_def b64url_alphabet_def urlsafe_translate_def)

lemma length_b64_alphabet: "length b64_alphabet = 64"
  by (simp add: b64_alphabet_def)

lemma length_b64url_alphabet: "length b64url_alphabet = 64"
  by (simp add: b64url_alphabet_def)

lemma translate_b64_char: "i < 64 \<Longrightarrow> urlsafe_translate (b64_char i) = b64url_char i"
proof -
  assume i: "i < 64"
  have "urlsafe_translate (b64_alphabet ! i) = map urlsafe_translate b64_alphabet ! i"
    using i by (simp add: length_b64_alphabet)
  then show ?thesis by (simp add: b64_char_def b64url_char_def map_translate_alphabet)
qed

lemma b64url_char_in_alphabet: "i < 64 \<Longrightarrow> b64url_char i \<in> set b64url_alphabet"
  by (simp add: b64url_char_def length_b64url_alphabet)

lemma pad_not_in_alphabet: "CHR ''='' \<notin> set b64url_alphabet"
  by (simp add: b64url_alphabet_def)

lemma b64url_char_not_pad: "i < 64 \<Longrightarrow> b64url_char i \<noteq> CHR ''=''"
  using b64url_char_in_alphabet pad_not_in_alphabet by metis

lemma alphabet_ascii: "c \<in> set b64url_alphabet \<Longrightarrow> (of_char c :: nat) < 128"
  by (auto simp add: b64url_alphabet_def)

lemma sextet_bounds:
  fixes x y z :: nat
  assumes "x < 256" "y < 256" "z < 256"
  shows "x div 4 < 64" "(x mod 4) * 16 < 64" "(x mod 4) * 16 + y div 16 < 64"
    "(y mod 16) * 4 < 64" "(y mod 16) * 4 + z div 64 < 64" "z mod 64 < 64"
  using assms by simp_all

lemma rstrip_eq_Nil: "rstrip_eq [] = []"
  by (simp add: rstrip_eq_def)

lemma rstrip_eq_Cons: "c \<noteq> CHR ''='' \<Longrightarrow> rstrip_eq (c # xs) = c # rstrip_eq xs"
  by (simp add: rstrip_eq_def dropWhile_append)

lemma rstrip_eq_pad: "rstrip_eq (CHR ''='' # xs) = (if rstrip_eq xs = [] then [] else CHR ''='' # rstrip_eq xs)"
  by (auto simp add: rstrip_eq_def dropWhile_append)

lemma translate_pad: "urlsafe_translate CHR ''='' = CHR ''=''"
  by (simp add: urlsafe_translate_def)

lemma unpadded_refines:
  "rstrip_eq (urlsafe_b64encode s) = spec_base64url_unpadded s"
proof (induction s rule: b64encode.induct)
  case 1
  show ?case by (simp add: urlsafe_b64encode_def rstrip_eq_Nil)
next
  case (2 a)
  have x: "(of_char a :: nat) < 256" by (rule of_char_less_256)
  show ?case
    using sextet_bounds [OF x x x]
    by (simp add: urlsafe_b64encode_def Let_def translate_b64_char translate_pad rstrip_eq_Cons rstrip_eq_pad
          rstrip_eq_Nil b64url_char_not_pad)
next
  case (3 a b)
  have x: "(of_char a :: nat) < 256" and y: "(of_char b :: nat) < 256" by (rule of_char_less_256)+
  show ?case
    using sextet_bounds [OF x y y]
    by (simp add: urlsafe_b64encode_def Let_def translate_b64_char translate_pad rstrip_eq_Cons rstrip_eq_pad
          rstrip_eq_Nil b64url_char_not_pad)
next
  case (4 a b c rest)
  have x: "(of_char a :: nat) < 256" and y: "(of_char b :: nat) < 256" and z: "(of_char c :: nat) < 256"
    by (rule of_char_less_256)+
  from 4 have ih: "rstrip_eq (map urlsafe_translate (b64encode rest)) = spec_base64url_unpadded rest"
    by (simp add: urlsafe_b64encode_def)
  show ?case
    using sextet_bounds [OF x y z]
    by (simp add: urlsafe_b64encode_def Let_def translate_b64_char rstrip_eq_Cons b64url_char_not_pad ih)
qed

lemma length_unpadded: "length (spec_base64url_unpadded s) = (4 * length s + 2) div 3"
  by (induction s rule: spec_base64url_unpadded.induct) simp_all

lemma unpadded_charset: "set (spec_base64url_unpadded s) \<subseteq> set b64url_alphabet"
proof (induction s rule: spec_base64url_unpadded.induct)
  case 1
  show ?case by simp
next
  case (2 a)
  have x: "(of_char a :: nat) < 256" by (rule of_char_less_256)
  show ?case using sextet_bounds [OF x x x] by (simp add: b64url_char_in_alphabet)
next
  case (3 a b)
  have x: "(of_char a :: nat) < 256" and y: "(of_char b :: nat) < 256" by (rule of_char_less_256)+
  show ?case using sextet_bounds [OF x y y] by (simp add: b64url_char_in_alphabet)
next
  case (4 a b c rest)
  have x: "(of_char a :: nat) < 256" and y: "(of_char b :: nat) < 256" and z: "(of_char c :: nat) < 256"
    by (rule of_char_less_256)+
  show ?case using sextet_bounds [OF x y z] 4 by (simp add: b64url_char_in_alphabet)
qed

lemma utf8_encode_ascii: "\<forall>c\<in>set s. (of_char c :: nat) < 128 \<Longrightarrow> utf8_encode s = s"
  by (induction s) (simp_all add: utf8_encode_def utf8_char_def)

lemma utf8_encode_unpadded: "utf8_encode (spec_base64url_unpadded s) = spec_base64url_unpadded s"
  using unpadded_charset [of s] alphabet_ascii by (intro utf8_encode_ascii) blast

lemma login_flow_verifier:
  "verifier (login_flow sha256 token_bytes callback token) = rstrip_eq (urlsafe_b64encode (token_bytes 32))"
  by (simp add: login_flow_def Let_def split: option.splits sum.splits)

lemma login_flow_auth_params:
  "auth_params (login_flow sha256 token_bytes callback token) =
     [(''client_id'', KEYCLOAK_CLIENT_ID),
      (''redirect_uri'', REDIRECT_URI),
      (''response_type'', ''code''),
      (''scope'', REQUESTED_SCOPE),
      (''state'', ''random_state''),
      (''code_challenge'',
         rstrip_eq (urlsafe_b64encode (sha256 (utf8_encode (rstrip_eq (urlsafe_b64encode (token_bytes 32))))))),
      (''code_challenge_method'', ''S256'')]"
  by (simp add: login_flow_def Let_def split: option.splits sum.splits)

section \<open>The callback and the polling loop\<close>

lemma wait_loop_arrival:
  "wait_loop (\<lambda>i. if k \<le> i then c else None) i n = (if k \<le> i + n then c else None)"
  by (induction n arbitrary: i) (auto simp: code_truthy_def)

lemma do_GET_code: "q ''code'' = Some (c # cs) \<Longrightarrow> do_GET q a = Inr (Some c, Some 200)"
  by (simp add: do_GET_def py_index_def)

lemma do_GET_ignores_state: "do_GET (q(''state'' := s)) a = do_GET q a"
proof -
  have "(q(''state'' := s)) ''code'' = q ''code''" "(q(''state'' := s)) ''error'' = q ''error''"
    "(q(''state'' := s)) ''error_description'' = q ''error_description''"
    by simp_all
  then show ?thesis unfolding do_GET_def by (simp only:)
qed

lemma login_flow_ignores_state:
  "login_flow sha256 token_bytes (Some (k, q(''state'' := s))) token
     = login_flow sha256 token_bytes (Some (k, q)) token"
  unfolding login_flow_def option.case prod.case do_GET_ignores_state ..

lemma login_flow_with_code:
  assumes "q ''code'' = Some (c # cs)" and "c \<noteq> []" and "k \<le> 120"
  shows "token_calls (login_flow sha256 token_bytes (Some (k, q)) token)
     = [\<lparr>grant_type = ''authorization_code'', code = c, redirect_uri = REDIRECT_URI,
         code_verifier = rstrip_eq (urlsafe_b64encode (token_bytes 32)),
         client_secret_key = None,
         authorization = ''Basic '' @ b64encode (utf8_encode (KEYCLOAK_CLIENT_ID @ '':'' @ KEYCLOAK_CLIENT_SECRET))\<rparr>]"
proof -
  have g: "do_GET q None = Inr (Some c, Some 200)"
    using do_GET_code [where q = q and c = c and cs = cs and a = None] assms(1) by simp
  show ?thesis
    unfolding login_flow_def option.case prod.case g sum.case Let_def wait_loop_arrival
    using assms(2,3) by (simp add: code_truthy_def split: option.splits sum.splits)
qed

lemma login_flow_completes:
  assumes "q ''code'' = Some (c # cs)" and "c \<noteq> []" and "k \<le> 120"
    and "\<And>call. token call = Some (JObj kvs)"
  shows "success (login_flow sha256 token_bytes (Some (k, q)) token)"
proof -
  have g: "do_GET q None = Inr (Some c, Some 200)"
    using do_GET_code [where q = q and c = c and cs = cs and a = None] assms(1) by simp
  show ?thesis
    unfolding login_flow_def option.case prod.case g sum.case Let_def wait_loop_arrival
    using assms(2,3) by (simp add: code_truthy_def assms(4))
qed

lemma login_flow_state_param:
  "map_of (auth_params (login_flow sha256 token_bytes callback token)) ''state'' = Some ''random_state''"
  by (simp add: login_flow_auth_params)

section \<open>Properties of the two sidecars\<close>

text \<open>
  Claim C8. A request with a well-formed Bearer header meets the configuration check before
  any outbound call. When one of the gate's three values (introspection URL, client id,
  client secret) is unset or empty, the gate answers 500 with the body \<open>misconfigured\<close>
  and calls nothing; when one of the broker's six values (token URL, client id, client
  secret of either domain) is unset or empty, the broker does the same. That response is
  not the 401 with empty body of a refused caller.
\<close>

theorem misconfigured_is_500:
  assumes "bearer_any_case (headers_get hs ''authorization'' [])"
  shows "(absent environ ''KC_INTROSPECT_URL'' \<or> absent environ ''KC_CLIENT_ID''
            \<or> absent environ ''KC_CLIENT_SECRET''
          \<longrightarrow> check py_repr (gate_config_of environ) hs post
                = (Inr \<lparr>status_code = 500, content = ''misconfigured'', headers = []\<rparr>, []))
       \<and> (absent environ ''KC_A_TOKEN_URL'' \<or> absent environ ''KC_A_CLIENT_ID''
            \<or> absent environ ''KC_A_CLIENT_SECRET'' \<or> absent environ ''KC_B_TOKEN_URL''
            \<or> absent environ ''KC_B_CLIENT_ID'' \<or> absent environ ''KC_B_CLIENT_SECRET''
          \<longrightarrow> broker py_repr (broker_config_of environ) hs post'
                = (Inr \<lparr>status_code = 500, content = ''misconfigured'', headers = []\<rparr>, []))
       \<and> \<lparr>status_code = 500, content = ''misconfigured'', headers = []\<rparr> \<noteq> DENY"
proof (intro conjI impI)
  assume "absent environ ''KC_INTROSPECT_URL'' \<or> absent environ ''KC_CLIENT_ID''
            \<or> absent environ ''KC_CLIENT_SECRET''"
  then have "\<not> gate_configured (gate_config_of environ)"
    by (auto simp: absent_def gate_configured_def gate_config_of_def getenv_def)
  then show "check py_repr (gate_config_of environ) hs post
                = (Inr \<lparr>status_code = 500, content = ''misconfigured'', headers = []\<rparr>, [])"
    using check_misconfigured [OF assms] by (simp add: MISCONFIGURED_def)
next
  assume "absent environ ''KC_A_TOKEN_URL'' \<or> absent environ ''KC_A_CLIENT_ID''
            \<or> absent environ ''KC_A_CLIENT_SECRET'' \<or> absent environ ''KC_B_TOKEN_URL''
            \<or> absent environ ''KC_B_CLIENT_ID'' \<or> absent environ ''KC_B_CLIENT_SECRET''"
  then have "\<not> broker_configured (broker_config_of environ)"
    by (auto simp: absent_def broker_configured_def broker_config_of_def getenv_def)
  then show "broker py_repr (broker_config_of environ) hs post'
                = (Inr \<lparr>status_code = 500, content = ''misconfigured'', headers = []\<rparr>, [])"
    using broker_misconfigured [OF assms] by (simp add: MISCONFIGURED_def)
next
  show "\<lparr>status_code = 500, content = ''misconfigured'', headers = []\<rparr> \<noteq> DENY"
    by (simp add: DENY_def)
qed

theorem misconfigured_is_500_witness:
  "bearer_any_case (headers_get [''authorization'' \<mapsto> ''Bearer abc''] ''authorization'' [])
   \<and> absent [''KC_INTROSPECT_URL'' \<mapsto> ''http://kc/introspect'', ''KC_CLIENT_ID'' \<mapsto> ''gate''] ''KC_CLIENT_SECRET''
   \<and> check (\<lambda>v. []) (gate_config_of [''KC_INTROSPECT_URL'' \<mapsto> ''http://kc/introspect'', ''KC_CLIENT_ID'' \<mapsto> ''gate''])
        [''authorization'' \<mapsto> ''Bearer abc''] (\<lambda>rq. Raised)
       = (Inr \<lparr>status_code = 500, content = ''misconfigured'', headers = []\<rparr>, [])
   \<and> absent [''KC_INTROSPECT_URL'' \<mapsto> ''http://kc/introspect'', ''KC_CLIENT_ID'' \<mapsto> ''gate''] ''KC_A_TOKEN_URL''
   \<and> broker (\<lambda>v. []) (broker_config_of [''KC_INTROSPECT_URL'' \<mapsto> ''http://kc/introspect'', ''KC_CLIENT_ID'' \<mapsto> ''gate''])
        [''authorization'' \<mapsto> ''Bearer abc''] (\<lambda>rq. Raised)
       = (Inr \<lparr>status_code = 500, content = ''misconfigured'', headers = []\<rparr>, [])"
proof -
  have b: "bearer_any_case (headers_get [''authorization'' \<mapsto> ''Bearer abc''] ''authorization'' [])"
    by (simp add: bearer_any_case_def headers_get_def)
  have a1: "absent [''KC_INTROSPECT_URL'' \<mapsto> ''http://kc/introspect'', ''KC_CLIENT_ID'' \<mapsto> ''gate''] ''KC_CLIENT_SECRET''"
    by (simp add: absent_def)
  have a2: "absent [''KC_INTROSPECT_URL'' \<mapsto> ''http://kc/introspect'', ''KC_CLIENT_ID'' \<mapsto> ''gate''] ''KC_A_TOKEN_URL''"
    by (simp add: absent_def)
  show ?thesis
    using misconfigured_is_500 [OF b, of "[''KC_INTROSPECT_URL'' \<mapsto> ''http://kc/introspect'', ''KC_CLIENT_ID'' \<mapsto> ''gate'']"
        "\<lambda>v. []" "\<lambda>rq. Raised" "\<lambda>rq. Raised"] b a1 a2
    by blast
qed

section \<open>Properties of the admission gate\<close>

text \<open>
  Claim C1 as stated does not hold of \<open>check\<close>: the handler tests \<open>active\<close> with Python
  truthiness, so a body whose \<open>active\<close> is the string \<open>"false"\<close> (which is not \<open>true\<close>)
  is admitted with status 200.
\<close>

theorem gate_active_not_true_counterexample:
  "map_of [(''active'', JStr ''false'')] ''active'' \<noteq> Some (JBool True)
   \<and> check (\<lambda>v. [])
        \<lparr>KC_INTROSPECT_URL = ''http://kc/introspect'', KC_CLIENT_ID = ''gate'', KC_CLIENT_SECRET = ''s3cret''\<rparr>
        [''authorization'' \<mapsto> ''Bearer abc'']
        (\<lambda>rq. Returned \<lparr>resp_status = 200, resp_json = Some (JObj [(''active'', JStr ''false'')])\<rparr>)
     = (Inr \<lparr>status_code = 200, content = [],
             headers = [(''X-Subject'', JStr []), (''X-Scope'', JStr []), (''X-Token-Exp'', JStr [])]\<rparr>,
        [introspection_request
           \<lparr>KC_INTROSPECT_URL = ''http://kc/introspect'', KC_CLIENT_ID = ''gate'', KC_CLIENT_SECRET = ''s3cret''\<rparr>
           ''abc''])"
proof -
  have b: "bearer_any_case (headers_get [''authorization'' \<mapsto> ''Bearer abc''] ''authorization'' [])"
    by (simp add: bearer_any_case_def headers_get_def)
  have c: "gate_configured \<lparr>KC_INTROSPECT_URL = ''http://kc/introspect'', KC_CLIENT_ID = ''gate'', KC_CLIENT_SECRET = ''s3cret''\<rparr>"
    by (simp add: gate_configured_def)
  have t: "strip (after_first_space (headers_get [''authorization'' \<mapsto> ''Bearer abc''] ''authorization'' [])) = ''abc''"
    by (simp add: strip_def after_first_space_def headers_get_def isspace_def)
  show ?thesis
    by (simp add: check_configured [OF b c] t check_verdict_def py_or_def Response_def is_str_def Let_def)
qed

text \<open>
  Claim C1, amended. The gate answers DENY (401, empty body, no headers) whenever the
  \<open>Authorization\<close> header is missing or is not the Bearer scheme, and, for a fully
  configured gate, whenever the introspection call raises, or its response has a status
  of 500 or more, or a body that does not parse, or a body that is an object whose
  \<open>active\<close> is absent or one of Python's false values (\<open>false\<close>, \<open>null\<close>, zero, an empty
  string, list or object). None of these inputs is admitted.
\<close>

theorem gate_fail_closed:
  assumes "hs ''authorization'' = None
           \<or> \<not> bearer_any_case (headers_get hs ''authorization'' [])
           \<or> (gate_configured cfg
               \<and> introspection_refuses
                    (post (introspection_request cfg (strip (after_first_space (headers_get hs ''authorization'' []))))))"
  shows "fst (check py_repr cfg hs post) = Inr \<lparr>status_code = 401, content = [], headers = []\<rparr>"
proof (cases "bearer_any_case (headers_get hs ''authorization'' [])")
  case False
  then show ?thesis by (simp add: check_no_bearer DENY_def)
next
  case True
  then have "hs ''authorization'' \<noteq> None"
    by (auto simp: headers_get_def bearer_any_case_def split: option.splits)
  with assms True have c: "gate_configured cfg"
    and r: "introspection_refuses
              (post (introspection_request cfg (strip (after_first_space (headers_get hs ''authorization'' [])))))"
    by auto
  from r show ?thesis
    by (auto simp add: check_configured [OF True c] Let_def introspection_refuses_def check_verdict_falsy DENY_def [symmetric]
          split: http_outcome.splits option.splits json.splits)
qed

theorem gate_fail_closed_witness:
  "gate_configured \<lparr>KC_INTROSPECT_URL = ''http://kc/introspect'', KC_CLIENT_ID = ''gate'', KC_CLIENT_SECRET = ''s3cret''\<rparr>
   \<and> introspection_refuses (Returned \<lparr>resp_status = 200, resp_json = Some (JObj [(''active'', JBool False)])\<rparr>)
   \<and> fst (check (\<lambda>v. [])
        \<lparr>KC_INTROSPECT_URL = ''http://kc/introspect'', KC_CLIENT_ID = ''gate'', KC_CLIENT_SECRET = ''s3cret''\<rparr>
        [''authorization'' \<mapsto> ''Bearer abc'']
        (\<lambda>rq. Returned \<lparr>resp_status = 200, resp_json = Some (JObj [(''active'', JBool False)])\<rparr>))
     = Inr \<lparr>status_code = 401, content = [], headers = []\<rparr>"
proof -
  have c: "gate_configured \<lparr>KC_INTROSPECT_URL = ''http://kc/introspect'', KC_CLIENT_ID = ''gate'', KC_CLIENT_SECRET = ''s3cret''\<rparr>"
    by (simp add: gate_configured_def)
  have r: "introspection_refuses (Returned \<lparr>resp_status = 200, resp_json = Some (JObj [(''active'', JBool False)])\<rparr>)"
    by (simp add: introspection_refuses_def)
  show ?thesis
    using gate_fail_closed [of "[''authorization'' \<mapsto> ''Bearer abc'']"
        "\<lparr>KC_INTROSPECT_URL = ''http://kc/introspect'', KC_CLIENT_ID = ''gate'', KC_CLIENT_SECRET = ''s3cret''\<rparr>"
        "\<lambda>rq. Returned \<lparr>resp_status = 200, resp_json = Some (JObj [(''active'', JBool False)])\<rparr>" "\<lambda>v. []"] c r
    by blast
qed




section \<open>Properties of the header check\<close>



section \<open>Properties of the broker\<close>

text \<open>
  Claim C2. For a request with a well-formed Bearer header to a fully configured broker,
  if the Hop-A outcome carries no non-empty \<open>access_token\<close> (the call raised, the body
  does not parse or is not an object, or the field is absent or empty), the broker
  answers DENY (401, empty body) and the only outbound request it has made is the Hop-A
  request: no Hop-B request is made.
\<close>

theorem hop_a_without_token_denies:
  assumes "bearer_any_case (headers_get hs ''authorization'' [])"
    and "broker_configured cfg"
    and "\<not> has_access_token (post (hop_a_request cfg (strip (after_first_space (headers_get hs ''authorization'' [])))))"
  shows "broker py_repr cfg hs post
           = (Inr \<lparr>status_code = 401, content = [], headers = []\<rparr>,
              [hop_a_request cfg (strip (after_first_space (headers_get hs ''authorization'' [])))])
         \<and> (\<forall>jwt. hop_b_request cfg jwt \<notin> set (snd (broker py_repr cfg hs post)))"
proof -
  have "broker py_repr cfg hs post
           = (Inr DENY, [hop_a_request cfg (strip (after_first_space (headers_get hs ''authorization'' [])))])"
    using broker_hop_a_fail [OF assms(1,2)] assms(3) by simp
  then show ?thesis
    by (simp add: DENY_def hop_requests_differ')
qed

theorem hop_a_without_token_denies_witness:
  "\<not> has_access_token (Returned \<lparr>resp_status = 200, resp_json = Some (JObj [(''error'', JStr ''invalid_grant'')])\<rparr>)
   \<and> broker (\<lambda>v. [])
        \<lparr>KC_A_TOKEN_URL = ''http://a/token'', KC_A_CLIENT_ID = ''a'', KC_A_CLIENT_SECRET = ''sa'',
          KC_A_SCOPE = ''mcp-b'', KC_B_TOKEN_URL = ''http://b/token'', KC_B_CLIENT_ID = ''b'',
          KC_B_CLIENT_SECRET = ''sb'', KC_B_CLIENT_AUTH = ''client_secret_basic''\<rparr>
        [''authorization'' \<mapsto> ''Bearer abc'']
        (\<lambda>rq. Returned \<lparr>resp_status = 200, resp_json = Some (JObj [(''error'', JStr ''invalid_grant'')])\<rparr>)
     = (Inr \<lparr>status_code = 401, content = [], headers = []\<rparr>,
        [hop_a_request
           \<lparr>KC_A_TOKEN_URL = ''http://a/token'', KC_A_CLIENT_ID = ''a'', KC_A_CLIENT_SECRET = ''sa'',
             KC_A_SCOPE = ''mcp-b'', KC_B_TOKEN_URL = ''http://b/token'', KC_B_CLIENT_ID = ''b'',
             KC_B_CLIENT_SECRET = ''sb'', KC_B_CLIENT_AUTH = ''client_secret_basic''\<rparr>
           ''abc''])"
proof -
  let ?b = "\<lparr>KC_A_TOKEN_URL = ''http://a/token'', KC_A_CLIENT_ID = ''a'', KC_A_CLIENT_SECRET = ''sa'',
                    KC_A_SCOPE = ''mcp-b'', KC_B_TOKEN_URL = ''http://b/token'', KC_B_CLIENT_ID = ''b'',
                    KC_B_CLIENT_SECRET = ''sb'', KC_B_CLIENT_AUTH = ''client_secret_basic''\<rparr>"
  let ?out = "Returned \<lparr>resp_status = 200, resp_json = Some (JObj [(''error'', JStr ''invalid_grant'')])\<rparr>"
  have b: "bearer_any_case (headers_get [''authorization'' \<mapsto> ''Bearer abc''] ''authorization'' [])"
    by (simp add: bearer_any_case_def headers_get_def)
  have c: "broker_configured ?b" by (simp add: broker_configured_def)
  have n: "\<not> has_access_token ?out" by (simp add: has_access_token_def)
  have t: "strip (after_first_space (headers_get [''authorization'' \<mapsto> ''Bearer abc''] ''authorization'' [])) = ''abc''"
    by (simp add: strip_def after_first_space_def headers_get_def isspace_def)
  from hop_a_without_token_denies [OF b c, of "\<lambda>rq. ?out" "\<lambda>v. []"] n
  show ?thesis by (simp add: t)
qed

text \<open>
  Claim C5. For a broker invocation (well-formed Bearer header, complete configuration) in
  which the Hop-A response has a status below 500 and \<open>access_token: "jwtA"\<close>, and the
  Hop-B response to the assertion \<open>jwtA\<close> has a status below 500 and
  \<open>access_token: "finalTok"\<close>, the broker answers 200 with exactly the headers
  \<open>Authorization: Bearer finalTok\<close> and \<open>Cache-Control: no-store\<close> and an empty body, after
  the two hop requests; the Hop-A token \<open>jwtA\<close> occurs nowhere in that response.
\<close>

theorem broker_success_scenario:
  assumes "bearer_any_case (headers_get hs ''authorization'' [])"
    and "broker_configured cfg"
    and "status_below_500 (post (hop_a_request cfg (strip (after_first_space (headers_get hs ''authorization'' [])))))"
    and "yields_access_token (post (hop_a_request cfg (strip (after_first_space (headers_get hs ''authorization'' [])))))
           (JStr ''jwtA'')"
    and "status_below_500 (post (hop_b_request cfg (JStr ''jwtA'')))"
    and "yields_access_token (post (hop_b_request cfg (JStr ''jwtA''))) (JStr ''finalTok'')"
  shows "broker py_repr cfg hs post
           = (Inr \<lparr>status_code = 200, content = [],
                   headers = [(''Authorization'', JStr ''Bearer finalTok''), (''Cache-Control'', JStr ''no-store'')]\<rparr>,
              [hop_a_request cfg (strip (after_first_space (headers_get hs ''authorization'' []))),
               hop_b_request cfg (JStr ''jwtA'')])
         \<and> \<not> exposed_in py_repr ''jwtA''
               \<lparr>status_code = 200, content = [],
                headers = [(''Authorization'', JStr ''Bearer finalTok''), (''Cache-Control'', JStr ''no-store'')]\<rparr>"
proof -
  have "broker py_repr cfg hs post
           = (broker_finish py_repr (post (hop_b_request cfg (JStr ''jwtA''))),
              [hop_a_request cfg (strip (after_first_space (headers_get hs ''authorization'' []))),
               hop_b_request cfg (JStr ''jwtA'')])"
    using broker_hop_a_ok [where post = post and hs = hs and cfg = cfg and jwt = "JStr ''jwtA''" and py_repr = py_repr]
      assms(1-4) by blast
  moreover have "broker_finish py_repr (post (hop_b_request cfg (JStr ''jwtA'')))
      = Inr \<lparr>status_code = 200, content = [],
         headers = [(''Authorization'', JStr ''Bearer finalTok''), (''Cache-Control'', JStr ''no-store'')]\<rparr>"
    using broker_finish_ok [where out = "post (hop_b_request cfg (JStr ''jwtA''))" and tok = "JStr ''finalTok''"
        and py_repr = py_repr] assms(5,6) by simp
  moreover have "\<not> exposed_in py_repr ''jwtA''
               \<lparr>status_code = 200, content = [],
                headers = [(''Authorization'', JStr ''Bearer finalTok''), (''Cache-Control'', JStr ''no-store'')]\<rparr>"
    by (simp add: exposed_in_def occurs_in_def upt_rec)
  ultimately show ?thesis by simp
qed

theorem broker_success_scenario_witness:
  "broker (\<lambda>v. [])
     \<lparr>KC_A_TOKEN_URL = ''http://a/token'', KC_A_CLIENT_ID = ''a'', KC_A_CLIENT_SECRET = ''sa'',
       KC_A_SCOPE = ''mcp-b'', KC_B_TOKEN_URL = ''http://b/token'', KC_B_CLIENT_ID = ''b'',
       KC_B_CLIENT_SECRET = ''sb'', KC_B_CLIENT_AUTH = ''client_secret_basic''\<rparr>
     [''authorization'' \<mapsto> ''Bearer abc'']
     (\<lambda>rq. if map_of (data rq) ''grant_type'' = Some (JStr token_exchange_grant)
           then Returned \<lparr>resp_status = 200, resp_json = Some (JObj [(''access_token'', JStr ''jwtA'')])\<rparr>
           else Returned \<lparr>resp_status = 200, resp_json = Some (JObj [(''access_token'', JStr ''finalTok'')])\<rparr>)
   = (Inr \<lparr>status_code = 200, content = [],
           headers = [(''Authorization'', JStr ''Bearer finalTok''), (''Cache-Control'', JStr ''no-store'')]\<rparr>,
      [hop_a_request
         \<lparr>KC_A_TOKEN_URL = ''http://a/token'', KC_A_CLIENT_ID = ''a'', KC_A_CLIENT_SECRET = ''sa'',
           KC_A_SCOPE = ''mcp-b'', KC_B_TOKEN_URL = ''http://b/token'', KC_B_CLIENT_ID = ''b'',
           KC_B_CLIENT_SECRET = ''sb'', KC_B_CLIENT_AUTH = ''client_secret_basic''\<rparr> ''abc'',
       hop_b_request
         \<lparr>KC_A_TOKEN_URL = ''http://a/token'', KC_A_CLIENT_ID = ''a'', KC_A_CLIENT_SECRET = ''sa'',
           KC_A_SCOPE = ''mcp-b'', KC_B_TOKEN_URL = ''http://b/token'', KC_B_CLIENT_ID = ''b'',
           KC_B_CLIENT_SECRET = ''sb'', KC_B_CLIENT_AUTH = ''client_secret_basic''\<rparr> (JStr ''jwtA'')])"
proof -
  let ?b = "\<lparr>KC_A_TOKEN_URL = ''http://a/token'', KC_A_CLIENT_ID = ''a'', KC_A_CLIENT_SECRET = ''sa'',
                    KC_A_SCOPE = ''mcp-b'', KC_B_TOKEN_URL = ''http://b/token'', KC_B_CLIENT_ID = ''b'',
                    KC_B_CLIENT_SECRET = ''sb'', KC_B_CLIENT_AUTH = ''client_secret_basic''\<rparr>"
  let ?post = "\<lambda>rq. if map_of (data rq) ''grant_type'' = Some (JStr token_exchange_grant)
           then Returned \<lparr>resp_status = 200, resp_json = Some (JObj [(''access_token'', JStr ''jwtA'')])\<rparr>
           else Returned \<lparr>resp_status = 200, resp_json = Some (JObj [(''access_token'', JStr ''finalTok'')])\<rparr>"
  have c: "broker_configured ?b" by (simp add: broker_configured_def)
  have a: "?post (hop_a_request ?b t) = Returned \<lparr>resp_status = 200, resp_json = Some (JObj [(''access_token'', JStr ''jwtA'')])\<rparr>" for t
    by (simp add: hop_a_grant)
  have b: "?post (hop_b_request ?b j) = Returned \<lparr>resp_status = 200, resp_json = Some (JObj [(''access_token'', JStr ''finalTok'')])\<rparr>" for j
    by (simp add: hop_b_grant grants_differ)
  have 1: "status_below_500 (?post (hop_a_request ?b t))" for t
    unfolding a by (simp add: status_below_500_def)
  have 2: "yields_access_token (?post (hop_a_request ?b t)) (JStr ''jwtA'')" for t
    unfolding a by (simp add: yields_access_token_def)
  have 3: "status_below_500 (?post (hop_b_request ?b j))" for j
    unfolding b by (simp add: status_below_500_def)
  have 4: "yields_access_token (?post (hop_b_request ?b j)) (JStr ''finalTok'')" for j
    unfolding b by (simp add: yields_access_token_def)
  from broker_success_scenario [where hs = "[''authorization'' \<mapsto> ''Bearer abc'']" and cfg = ?b and post = ?post
      and py_repr = "\<lambda>v. []", OF scenario_bearer c 1 2 3 4]
  show ?thesis unfolding scenario_token by (rule conjunct1)
qed

text \<open>
  Claim C6. For a broker invocation (well-formed Bearer header, complete configuration) in
  which Hop A yields an \<open>access_token\<close>, if the Hop-B call raises, or its response has a
  status of 500 or more, a body that does not parse, or no non-empty \<open>access_token\<close>, the
  broker answers DENY (401, empty body, no headers), and the Hop-A token occurs nowhere
  in that response.
\<close>

theorem hop_b_failure_denies:
  assumes "bearer_any_case (headers_get hs ''authorization'' [])"
    and "broker_configured cfg"
    and "yields_access_token (post (hop_a_request cfg (strip (after_first_space (headers_get hs ''authorization'' []))))) jwt"
    and "\<not> (status_below_500 (post (hop_b_request cfg jwt)) \<and> has_access_token (post (hop_b_request cfg jwt)))"
  shows "fst (broker py_repr cfg hs post) = Inr \<lparr>status_code = 401, content = [], headers = []\<rparr>
         \<and> (\<forall>t. jwt = JStr t \<longrightarrow> \<not> exposed_in py_repr t \<lparr>status_code = 401, content = [], headers = []\<rparr>)"
proof -
  let ?out = "post (hop_a_request cfg (strip (after_first_space (headers_get hs ''authorization'' []))))"
  have "fst (broker py_repr cfg hs post) = Inr DENY"
  proof (cases "status_below_500 ?out")
    case True
    have "broker py_repr cfg hs post
           = (broker_finish py_repr (post (hop_b_request cfg jwt)),
              [hop_a_request cfg (strip (after_first_space (headers_get hs ''authorization'' []))),
               hop_b_request cfg jwt])"
      using broker_hop_a_ok [where post = post and hs = hs and cfg = cfg and jwt = jwt and py_repr = py_repr]
        assms(1-3) True by blast
    then show ?thesis using broker_finish_fail [OF assms(4), of py_repr] by simp
  next
    case False
    then show ?thesis using broker_hop_a_fail [OF assms(1,2), of post py_repr] by simp
  qed
  moreover have "truthy jwt"
    using assms(3) by (auto simp: yields_access_token_def split: http_outcome.splits option.splits json.splits)
  then have "\<forall>t. jwt = JStr t \<longrightarrow> \<not> exposed_in py_repr t DENY"
    by (auto simp: not_exposed_in_DENY)
  ultimately show ?thesis by (simp add: DENY_def)
qed

theorem hop_b_failure_denies_witness:
  "fst (broker (\<lambda>v. [])
     \<lparr>KC_A_TOKEN_URL = ''http://a/token'', KC_A_CLIENT_ID = ''a'', KC_A_CLIENT_SECRET = ''sa'',
       KC_A_SCOPE = ''mcp-b'', KC_B_TOKEN_URL = ''http://b/token'', KC_B_CLIENT_ID = ''b'',
       KC_B_CLIENT_SECRET = ''sb'', KC_B_CLIENT_AUTH = ''client_secret_basic''\<rparr>
     [''authorization'' \<mapsto> ''Bearer abc'']
     (\<lambda>rq. if map_of (data rq) ''grant_type'' = Some (JStr token_exchange_grant)
           then Returned \<lparr>resp_status = 200, resp_json = Some (JObj [(''access_token'', JStr ''jwtA'')])\<rparr>
           else Returned \<lparr>resp_status = 503, resp_json = Some (JObj [(''access_token'', JStr ''finalTok'')])\<rparr>))
   = Inr \<lparr>status_code = 401, content = [], headers = []\<rparr>
   \<and> \<not> exposed_in (\<lambda>v. []) ''jwtA'' \<lparr>status_code = 401, content = [], headers = []\<rparr>"
proof -
  let ?b = "\<lparr>KC_A_TOKEN_URL = ''http://a/token'', KC_A_CLIENT_ID = ''a'', KC_A_CLIENT_SECRET = ''sa'',
                    KC_A_SCOPE = ''mcp-b'', KC_B_TOKEN_URL = ''http://b/token'', KC_B_CLIENT_ID = ''b'',
                    KC_B_CLIENT_SECRET = ''sb'', KC_B_CLIENT_AUTH = ''client_secret_basic''\<rparr>"
  let ?post = "\<lambda>rq. if map_of (data rq) ''grant_type'' = Some (JStr token_exchange_grant)
           then Returned \<lparr>resp_status = 200, resp_json = Some (JObj [(''access_token'', JStr ''jwtA'')])\<rparr>
           else Returned \<lparr>resp_status = 503, resp_json = Some (JObj [(''access_token'', JStr ''finalTok'')])\<rparr>"
  have c: "broker_configured ?b" by (simp add: broker_configured_def)
  have a: "?post (hop_a_request ?b t) = Returned \<lparr>resp_status = 200, resp_json = Some (JObj [(''access_token'', JStr ''jwtA'')])\<rparr>" for t
    by (simp add: hop_a_grant)
  have b: "?post (hop_b_request ?b j) = Returned \<lparr>resp_status = 503, resp_json = Some (JObj [(''access_token'', JStr ''finalTok'')])\<rparr>" for j
    by (simp add: hop_b_grant grants_differ)
  have 1: "yields_access_token (?post (hop_a_request ?b t)) (JStr ''jwtA'')" for t
    unfolding a by (simp add: yields_access_token_def)
  have 2: "\<not> (status_below_500 (?post (hop_b_request ?b j)) \<and> has_access_token (?post (hop_b_request ?b j)))" for j
    unfolding b by (simp add: status_below_500_def)
  from hop_b_failure_denies [where hs = "[''authorization'' \<mapsto> ''Bearer abc'']" and cfg = ?b and post = ?post
      and py_repr = "\<lambda>v. []" and jwt = "JStr ''jwtA''", OF scenario_bearer c 1 2]
  show ?thesis by simp
qed

text \<open>
  Claim C9. In every broker invocation that reaches Hop B, the Hop-B request has exactly
  one of two shapes, chosen by \<open>KC_B_CLIENT_AUTH\<close>: for \<open>client_secret_basic\<close> it carries
  the Basic credentials of the domain-B client in the \<open>Authorization\<close> header and no
  \<open>client_id\<close> or \<open>client_secret\<close> form field; for every other value it carries
  \<open>client_id\<close> and \<open>client_secret\<close> as form fields and no \<open>Authorization\<close> header. The two
  shapes exclude each other.
\<close>

theorem hop_b_client_authentication:
  assumes "snd (broker py_repr cfg hs post) = [rq_a, rq_b]"
  shows "(KC_B_CLIENT_AUTH cfg = ''client_secret_basic'' \<longrightarrow>
            basic_shape (KC_B_CLIENT_ID cfg) (KC_B_CLIENT_SECRET cfg) rq_b
            \<and> \<not> body_shape (KC_B_CLIENT_ID cfg) (KC_B_CLIENT_SECRET cfg) rq_b)
       \<and> (KC_B_CLIENT_AUTH cfg \<noteq> ''client_secret_basic'' \<longrightarrow>
            body_shape (KC_B_CLIENT_ID cfg) (KC_B_CLIENT_SECRET cfg) rq_b
            \<and> \<not> basic_shape (KC_B_CLIENT_ID cfg) (KC_B_CLIENT_SECRET cfg) rq_b)"
proof -
  from broker_trace_cases [of py_repr cfg hs post] assms
  obtain jwt where "rq_b = hop_b_request cfg jwt" by auto
  then show ?thesis using hop_b_request_shape [of cfg jwt] by simp
qed

theorem hop_b_client_authentication_witness:
  "snd (broker (\<lambda>v. [])
     \<lparr>KC_A_TOKEN_URL = ''http://a/token'', KC_A_CLIENT_ID = ''a'', KC_A_CLIENT_SECRET = ''sa'',
       KC_A_SCOPE = ''mcp-b'', KC_B_TOKEN_URL = ''http://b/token'', KC_B_CLIENT_ID = ''b'',
       KC_B_CLIENT_SECRET = ''sb'', KC_B_CLIENT_AUTH = ''private_key_jwt''\<rparr>
     [''authorization'' \<mapsto> ''Bearer abc'']
     (\<lambda>rq. Returned \<lparr>resp_status = 200, resp_json = Some (JObj [(''access_token'', JStr ''jwtA'')])\<rparr>))
   = [hop_a_request
         \<lparr>KC_A_TOKEN_URL = ''http://a/token'', KC_A_CLIENT_ID = ''a'', KC_A_CLIENT_SECRET = ''sa'',
           KC_A_SCOPE = ''mcp-b'', KC_B_TOKEN_URL = ''http://b/token'', KC_B_CLIENT_ID = ''b'',
           KC_B_CLIENT_SECRET = ''sb'', KC_B_CLIENT_AUTH = ''private_key_jwt''\<rparr> ''abc'',
      \<lparr>url = ''http://b/token'', req_headers = [(''Content-Type'', ''application/x-www-form-urlencoded'')],
       data = [(''grant_type'', JStr ''urn:ietf:params:oauth:grant-type:jwt-bearer''), (''assertion'', JStr ''jwtA''),
               (''client_id'', JStr ''b''), (''client_secret'', JStr ''sb'')]\<rparr>]
   \<and> body_shape ''b'' ''sb''
        \<lparr>url = ''http://b/token'', req_headers = [(''Content-Type'', ''application/x-www-form-urlencoded'')],
         data = [(''grant_type'', JStr ''urn:ietf:params:oauth:grant-type:jwt-bearer''), (''assertion'', JStr ''jwtA''),
                 (''client_id'', JStr ''b''), (''client_secret'', JStr ''sb'')]\<rparr>
   \<and> \<not> basic_shape ''b'' ''sb''
        \<lparr>url = ''http://b/token'', req_headers = [(''Content-Type'', ''application/x-www-form-urlencoded'')],
         data = [(''grant_type'', JStr ''urn:ietf:params:oauth:grant-type:jwt-bearer''), (''assertion'', JStr ''jwtA''),
                 (''client_id'', JStr ''b''), (''client_secret'', JStr ''sb'')]\<rparr>"
proof -
  let ?b = "\<lparr>KC_A_TOKEN_URL = ''http://a/token'', KC_A_CLIENT_ID = ''a'', KC_A_CLIENT_SECRET = ''sa'',
                    KC_A_SCOPE = ''mcp-b'', KC_B_TOKEN_URL = ''http://b/token'', KC_B_CLIENT_ID = ''b'',
                    KC_B_CLIENT_SECRET = ''sb'', KC_B_CLIENT_AUTH = ''private_key_jwt''\<rparr>"
  let ?post = "\<lambda>rq. Returned \<lparr>resp_status = 200, resp_json = Some (JObj [(''access_token'', JStr ''jwtA'')])\<rparr>"
  let ?rq_b = "\<lparr>url = ''http://b/token'', req_headers = [(''Content-Type'', ''application/x-www-form-urlencoded'')],
       data = [(''grant_type'', JStr ''urn:ietf:params:oauth:grant-type:jwt-bearer''), (''assertion'', JStr ''jwtA''),
               (''client_id'', JStr ''b''), (''client_secret'', JStr ''sb'')]\<rparr>"
  have c: "broker_configured ?b" by (simp add: broker_configured_def)
  have 1: "status_below_500 (?post rq)" for rq by (simp add: status_below_500_def)
  have 2: "yields_access_token (?post rq) (JStr ''jwtA'')" for rq by (simp add: yields_access_token_def)
  have rb: "hop_b_request ?b (JStr ''jwtA'') = ?rq_b"
    by (simp add: hop_b_request_def Let_def dict_update_def client_auth_fields_def form_urlencoded_def jwt_bearer_grant_def)
  have tr: "snd (broker (\<lambda>v. []) ?b [''authorization'' \<mapsto> ''Bearer abc''] ?post)
      = [hop_a_request ?b ''abc'', ?rq_b]"
    using broker_hop_a_ok [where hs = "[''authorization'' \<mapsto> ''Bearer abc'']" and cfg = ?b and post = ?post
      and py_repr = "\<lambda>v. []" and jwt = "JStr ''jwtA''", OF scenario_bearer c 1 2]
    by (simp add: scenario_token rb)
  from hop_b_client_authentication [OF tr] tr show ?thesis by simp
qed

section \<open>Properties of the authorization-code flow\<close>

text \<open>
  Claim C7. In every run of \<open>login_flow\<close>, given that \<open>secrets.token_bytes(32)\<close> returns 32
  bytes (256 bits): the verifier is the unpadded base64url encoding of those bytes, it has
  43 characters, all from the base64url alphabet (so its UTF-8 bytes are its characters);
  the \<open>code_challenge\<close> of the authorization request is the unpadded base64url encoding of
  the SHA-256 digest of the UTF-8 verifier; and the \<open>code_challenge_method\<close> is \<open>S256\<close>.
\<close>

theorem pkce_pair:
  assumes "length (token_bytes 32) = 32"
  shows "verifier (login_flow sha256 token_bytes callback token) = spec_base64url_unpadded (token_bytes 32)
       \<and> 8 * length (token_bytes 32) = 256
       \<and> length (verifier (login_flow sha256 token_bytes callback token)) = 43
       \<and> set (verifier (login_flow sha256 token_bytes callback token)) \<subseteq> set b64url_alphabet
       \<and> utf8_encode (verifier (login_flow sha256 token_bytes callback token))
           = verifier (login_flow sha256 token_bytes callback token)
       \<and> map_of (auth_params (login_flow sha256 token_bytes callback token)) ''code_challenge''
           = Some (spec_base64url_unpadded
                     (sha256 (utf8_encode (verifier (login_flow sha256 token_bytes callback token)))))
       \<and> map_of (auth_params (login_flow sha256 token_bytes callback token)) ''code_challenge_method''
           = Some ''S256''"
proof -
  have v: "verifier (login_flow sha256 token_bytes callback token) = spec_base64url_unpadded (token_bytes 32)"
    by (simp add: login_flow_verifier unpadded_refines)
  have l: "length (spec_base64url_unpadded (token_bytes 32)) = 43"
    by (simp add: length_unpadded assms)
  have c: "map_of (auth_params (login_flow sha256 token_bytes callback token)) ''code_challenge''
           = Some (spec_base64url_unpadded (sha256 (utf8_encode (spec_base64url_unpadded (token_bytes 32)))))"
    by (simp add: login_flow_auth_params unpadded_refines)
  have m: "map_of (auth_params (login_flow sha256 token_bytes callback token)) ''code_challenge_method''
           = Some ''S256''"
    by (simp add: login_flow_auth_params)
  show ?thesis
    unfolding v using l c m assms by (simp add: unpadded_charset utf8_encode_unpadded)
qed

theorem pkce_pair_witness:
  "length ((\<lambda>n. ''AAAAAAAAAAAAAAAAAAAAAAAAAAAAAAAA'') (32::nat)) = 32
   \<and> verifier (login_flow (\<lambda>s. s) (\<lambda>n. ''AAAAAAAAAAAAAAAAAAAAAAAAAAAAAAAA'') None (\<lambda>c. None))
       = ''QUFBQUFBQUFBQUFBQUFBQUFBQUFBQUFBQUFBQUFBQUE''
   \<and> length (verifier (login_flow (\<lambda>s. s) (\<lambda>n. ''AAAAAAAAAAAAAAAAAAAAAAAAAAAAAAAA'') None (\<lambda>c. None))) = 43
   \<and> map_of (auth_params (login_flow (\<lambda>s. s) (\<lambda>n. ''AAAAAAAAAAAAAAAAAAAAAAAAAAAAAAAA'') None (\<lambda>c. None)))
        ''code_challenge_method'' = Some ''S256''"
proof -
  have h: "length ((\<lambda>n. ''AAAAAAAAAAAAAAAAAAAAAAAAAAAAAAAA'') (32::nat)) = 32" by simp
  have e: "spec_base64url_unpadded ''AAAAAAAAAAAAAAAAAAAAAAAAAAAAAAAA'' = ''QUFBQUFBQUFBQUFBQUFBQUFBQUFBQUFBQUFBQUFBQUE''"
    by (simp add: b64url_char_def b64url_alphabet_def)
  from pkce_pair [OF h, of "\<lambda>s. s" None "\<lambda>c. None"] e
  show ?thesis by simp
qed


text \<open>
  Claim C3 as stated does not hold of the flow: \<open>do_GET\<close> never reads the \<open>state\<close>
  parameter and \<open>login_flow\<close> keeps no nonce to compare it with (it sends the constant
  \<open>random_state\<close>). A callback whose \<open>state\<close> differs from the one sent is accepted, the
  token exchange is made with its code, and the flow returns success.
\<close>

theorem callback_state_mismatch_counterexample:
  "map_of (auth_params (login_flow (\<lambda>s. s) (\<lambda>n. ''AAAAAAAAAAAAAAAAAAAAAAAAAAAAAAAA'')
             (Some (3, [''code'' \<mapsto> [''ABC''], ''state'' \<mapsto> [''attacker_state'']]))
             (\<lambda>call. Some (JObj [(''access_token'', JStr ''tok'')])))) ''state''
     = Some ''random_state''
   \<and> [''code'' \<mapsto> [''ABC''], ''state'' \<mapsto> [''attacker_state'']] ''state'' \<noteq> Some [''random_state'']
   \<and> map code (token_calls (login_flow (\<lambda>s. s) (\<lambda>n. ''AAAAAAAAAAAAAAAAAAAAAAAAAAAAAAAA'')
             (Some (3, [''code'' \<mapsto> [''ABC''], ''state'' \<mapsto> [''attacker_state'']]))
             (\<lambda>call. Some (JObj [(''access_token'', JStr ''tok'')])))) = [''ABC'']
   \<and> success (login_flow (\<lambda>s. s) (\<lambda>n. ''AAAAAAAAAAAAAAAAAAAAAAAAAAAAAAAA'')
             (Some (3, [''code'' \<mapsto> [''ABC''], ''state'' \<mapsto> [''attacker_state'']]))
             (\<lambda>call. Some (JObj [(''access_token'', JStr ''tok'')])))"
proof -
  let ?q = "[''code'' \<mapsto> [''ABC''], ''state'' \<mapsto> [''attacker_state'']]"
  have c: "?q ''code'' = Some (''ABC'' # [])" by simp
  have n: "''ABC'' \<noteq> []" by simp
  have k: "(3::nat) \<le> 120" by simp
  show ?thesis
    using login_flow_with_code [where q = ?q and c = "''ABC''" and cs = "[]" and k = 3, OF c n k]
      login_flow_completes [where q = ?q and c = "''ABC''" and cs = "[]" and k = 3
        and token = "\<lambda>call. Some (JObj [(''access_token'', JStr ''tok'')])", OF c n k]
    by (simp add: login_flow_state_param)
qed

text \<open>
  Claim C3, amended. For every callback handled while the flow waits (within the 120
  polls) whose query carries a non-empty \<open>code\<close>, the \<open>state\<close> value returned in the query
  is not compared with anything: the flow behaves the same for every \<open>state\<close> value,
  present or absent, and goes on to the token exchange with that code.
\<close>

theorem callback_state_is_not_compared:
  assumes "q ''code'' = Some (c # cs)" and "c \<noteq> []" and "k \<le> 120"
  shows "login_flow sha256 token_bytes (Some (k, q(''state'' := s))) token
           = login_flow sha256 token_bytes (Some (k, q)) token
       \<and> map code (token_calls (login_flow sha256 token_bytes (Some (k, q(''state'' := s))) token)) = [c]"
  using login_flow_with_code [where q = q and c = c and cs = cs and k = k, OF assms]
  by (simp add: login_flow_ignores_state)

theorem callback_state_is_not_compared_witness:
  "login_flow (\<lambda>s. s) (\<lambda>n. ''AAAAAAAAAAAAAAAAAAAAAAAAAAAAAAAA'')
       (Some (3, [''code'' \<mapsto> [''ABC''], ''state'' \<mapsto> [''attacker_state'']])) (\<lambda>call. None)
     = login_flow (\<lambda>s. s) (\<lambda>n. ''AAAAAAAAAAAAAAAAAAAAAAAAAAAAAAAA'')
       (Some (3, [''code'' \<mapsto> [''ABC'']])) (\<lambda>call. None)
   \<and> map code (token_calls (login_flow (\<lambda>s. s) (\<lambda>n. ''AAAAAAAAAAAAAAAAAAAAAAAAAAAAAAAA'')
       (Some (3, [''code'' \<mapsto> [''ABC''], ''state'' \<mapsto> [''attacker_state'']])) (\<lambda>call. None))) = [''ABC'']"
proof -
  have c: "[''code'' \<mapsto> [''ABC'']] ''code'' = Some (''ABC'' # [])" by simp
  have n: "''ABC'' \<noteq> []" by simp
  have k: "(3::nat) \<le> 120" by simp
  show ?thesis
    using callback_state_is_not_compared [of "[''code'' \<mapsto> [''ABC'']]" "''ABC''" "[]" 3 "\<lambda>s. s"
          "\<lambda>n. ''AAAAAAAAAAAAAAAAAAAAAAAAAAAAAAAA''" "Some [''attacker_state'']" "\<lambda>call. None", OF c n k]
    by blast
qed

end
